theory Spec2Isabelle
  imports Complex_Main
begin

section \<open>The experiment driver \<^verbatim>\<open>run_sumo_ca.py\<close>\<close>

text \<open>
  The driver parses its flags, binds the name \<^verbatim>\<open>Agent\<close> by an import chain on
  \<^verbatim>\<open>args.algo\<close>, and \<^verbatim>\<open>main()\<close> then builds the agent and alternates training
  episodes with evaluation blocks. The model below follows the script line by line.

  Python's unbounded integers are \<^typ>\<open>int\<close>. A Python float is a double; it is
  identified here with the real number it denotes (infinities and NaN are not represented).
  Addition of doubles and division of a double by an integer round, so they are not the
  operations of \<^typ>\<open>real\<close>: like \<^verbatim>\<open>round\<close> and \<^verbatim>\<open>str\<close> they are parameters of the model
  (\<open>float_add\<close>, \<open>float_div\<close>), and the arithmetic of doubles is one instance
  (\<open>double_add\<close>, \<open>double_div\<close> below). The comparison of a double with an integer is
  exact. An uncaught exception is a value \<open>Inl (e, tr)\<close>, where \<open>tr\<close> is what the run had
  done up to the raise.
\<close>

subsection \<open>Configuration\<close>

text \<open>The \<^verbatim>\<open>args\<close> namespace produced by \<^verbatim>\<open>parser.parse_args()\<close> (lines 12-33).\<close>

record config =
  env :: string
  algo :: string
  seed :: int
  training_eps :: int
  eval_per_train :: int
  evaluation_eps :: int
  max_step :: int
  threshold_return :: int
  tensorboard :: bool
  gpu_index :: int
  model_path :: string

text \<open>The defaults of the flags.\<close>

definition default_config :: config where
  "default_config =
     \<lparr>env = ''sumo'', algo = ''td3'', seed = 0, training_eps = 20000,
      eval_per_train = 200, evaluation_eps = 200, max_step = 200,
      threshold_return = 15, tensorboard = True, gpu_index = 0,
      model_path = ''tests/save_model/sumo_sac_s_0_ep_3650_tr_-6.29_er_-9.2.pt''\<rparr>"

subsection \<open>Exceptions and observable events\<close>

datatype py_error = NameError | ZeroDivisionError

text \<open>A value handed to \<^verbatim>\<open>print\<close>.\<close>

datatype pyval = VNone | VInt int | VFloat real | VStr string

text \<open>
  Modelled from the spec: the agent classes (\<^verbatim>\<open>agents/*.py\<close>) are not part of the
  sources at hand. Their \<^verbatim>\<open>run(max_steps)\<close> returns the triple (steps taken, episodic
  return, collision indicator).
\<close>

type_synonym episode_result = "nat \<times> real \<times> bool"

definition step_length :: "episode_result \<Rightarrow> nat" where
  "step_length r = fst r"

definition episode_return :: "episode_result \<Rightarrow> real" where
  "episode_return r = fst (snd r)"

definition collision :: "episode_result \<Rightarrow> bool" where
  "collision r = snd (snd r)"

text \<open>
  What the script does to the outside world, in order: the calls to the environment, the
  seeding, the metrics sink, the agent, standard output and the file system. \<open>Run m k r\<close> is
  one call \<^verbatim>\<open>agent.run(k)\<close> made while \<^verbatim>\<open>agent.eval_mode\<close> was \<open>m\<close>, returning \<open>r\<close>.
\<close>

datatype event =
    EnvCreated
  | Print string pyval
  | Seeded int
  | WriterCreated string
  | Run bool int episode_result
  | Scalar string real int
  | Mkdir string
  | Save string

subsection \<open>The module from which \<^verbatim>\<open>Agent\<close> is imported (lines 36-55)\<close>

datatype agent_module = Vpg | Trpo | Ppo | Ddpg | Td3 | Sac

text \<open>
  The \<^verbatim>\<open>if/elif\<close> chain has no \<^verbatim>\<open>else\<close>: when no branch matches, nothing is
  imported and the name \<^verbatim>\<open>Agent\<close> stays unbound (\<open>None\<close>). The star import of the
  environment module at line 9 is taken not to bind that name.
\<close>

definition import_chain :: "string \<Rightarrow> agent_module option" where
  "import_chain a =
     (if a = ''vpg'' then Some Vpg
      else if a = ''npg'' then Some Trpo
      else if a = ''trpo'' then Some Trpo
      else if a = ''ppo'' then Some Ppo
      else if a = ''ddpg'' then Some Ddpg
      else if a = ''td3'' then Some Td3
      else if a = ''sac'' then Some Sac
      else if a = ''asac'' then Some Sac
      else if a = ''tac'' then Some Sac
      else if a = ''atac'' then Some Sac
      else None)"

text \<open>The identifiers listed in the help text of \<^verbatim>\<open>--algo\<close>.\<close>

definition algorithms :: "string list" where
  "algorithms =
     [''vpg'', ''npg'', ''trpo'', ''ppo'', ''ddpg'', ''td3'', ''sac'', ''asac'', ''tac'', ''atac'']"

subsection \<open>External collaborators\<close>

text \<open>The keyword arguments of the constructor call; \<open>None\<close> is an argument not passed.\<close>

record agent_kwargs =
  kw_alpha :: "real option"
  kw_load_model :: "bool option"
  kw_automatic_entropy_tuning :: "bool option"
  kw_log_type :: "string option"
  kw_entropic_index :: "real option"

definition no_kwargs :: agent_kwargs where
  "no_kwargs =
     \<lparr>kw_alpha = None, kw_load_model = None, kw_automatic_entropy_tuning = None,
      kw_log_type = None, kw_entropic_index = None\<rparr>"

definition obs_dim :: int where "obs_dim = 14"
definition act_dim :: int where "act_dim = 1"
definition act_limit :: int where "act_limit = 15"

text \<open>
  Everything the script calls but does not define, over an arbitrary type \<open>'a\<close> of agent
  states:
  \<^item> \<open>agent_init\<close>: the constructor \<^verbatim>\<open>Agent(env, args, device, obs_dim, act_dim, act_limit, ...)\<close>
    of the imported module;
  \<^item> \<open>agent_run\<close>: \<^verbatim>\<open>agent.run(max_step)\<close>, which reads the agent (with its
    \<^verbatim>\<open>eval_mode\<close> attribute, passed here as the second argument) and updates it;
  \<^item> \<open>agent_alpha\<close>, \<open>agent_logger\<close>: the attributes \<^verbatim>\<open>agent.alpha\<close> and \<^verbatim>\<open>agent.logger\<close>;
  \<^item> \<open>float_add\<close>: \<^verbatim>\<open>x + y\<close> on floats (\<^verbatim>\<open>x - y\<close> is \<^verbatim>\<open>x + (-y)\<close>, negation being exact);
    \<open>float_div\<close>: \<^verbatim>\<open>x / n\<close> for a float \<open>x\<close> and a non-zero integer \<open>n\<close>;
  \<^item> \<open>round2\<close>: the builtin \<^verbatim>\<open>round(x, 2)\<close> on floats; \<open>str_float\<close>: \<^verbatim>\<open>str\<close> on floats;
  \<^item> \<open>time_time\<close>: the reading of \<^verbatim>\<open>time.time()\<close>, indexed by the training episode during
    which it is read (\<open>0\<close> for the reading before the loop; the script reads the clock at
    most once per episode);
  \<^item> \<open>timestamp\<close>: \<^verbatim>\<open>datetime.datetime.now().strftime(...)\<close> when the writer is created.
\<close>

record 'a externals =
  agent_init :: "agent_module \<Rightarrow> config \<Rightarrow> int \<Rightarrow> int \<Rightarrow> int \<Rightarrow> agent_kwargs \<Rightarrow> 'a"
  agent_run :: "'a \<Rightarrow> bool \<Rightarrow> int \<Rightarrow> episode_result \<times> 'a"
  agent_alpha :: "'a \<Rightarrow> real"
  agent_logger :: "'a \<Rightarrow> string"
  float_add :: "real \<Rightarrow> real \<Rightarrow> real"
  float_div :: "real \<Rightarrow> int \<Rightarrow> real"
  round2 :: "real \<Rightarrow> real"
  str_float :: "real \<Rightarrow> string"
  time_time :: "int \<Rightarrow> real"
  timestamp :: string

subsection \<open>Builtins\<close>

text \<open>\<^verbatim>\<open>str\<close> on integers.\<close>

definition digit_char :: "nat \<Rightarrow> char" where
  "digit_char d = ''0123456789'' ! d"

fun str_nat :: "nat \<Rightarrow> string" where
  "str_nat n = (if n < 10 then [digit_char n] else str_nat (n div 10) @ [digit_char (n mod 10)])"

declare str_nat.simps [simp del]

definition str_int :: "int \<Rightarrow> string" where
  "str_int i = (if i < 0 then CHR ''-'' # str_nat (nat (- i)) else str_nat (nat i))"

text \<open>\<^verbatim>\<open>int\<close> on a float truncates towards zero.\<close>

definition int_of_float :: "real \<Rightarrow> int" where
  "int_of_float x = (if 0 \<le> x then \<lfloor>x\<rfloor> else \<lceil>x\<rceil>)"

text \<open>
  \<^verbatim>\<open>a % b\<close> and \<^verbatim>\<open>a / b\<close> on integers raise when \<open>b\<close> is zero. The quotient of two
  integers is given by its exact value, which Python rounds once, to the nearest double.
\<close>

definition py_mod :: "int \<Rightarrow> int \<Rightarrow> py_error + int" where
  "py_mod a b = (if b = 0 then Inl ZeroDivisionError else Inr (a mod b))"

definition py_truediv :: "int \<Rightarrow> int \<Rightarrow> py_error + real" where
  "py_truediv a b = (if b = 0 then Inl ZeroDivisionError else Inr (real_of_int a / real_of_int b))"

text \<open>The guarded quotient \<^verbatim>\<open>s / n if n > 0 else 0.0\<close> of lines 126 and 155.\<close>

definition average_return :: "'a externals \<Rightarrow> real \<Rightarrow> int \<Rightarrow> real" where
  "average_return X s n = (if n > 0 then float_div X s n else 0)"

subsection \<open>The local variables of \<^verbatim>\<open>main\<close>\<close>

text \<open>
  The mutable locals of \<^verbatim>\<open>main\<close>, with the agent, the existence of the checkpoint
  directory, and the events so far. The evaluation variables are unbound in Python until the
  first evaluation block assigns them; here they start at zero and are never read before
  that assignment.
\<close>

record 'a locals =
  agent :: 'a
  eval_mode :: bool
  start_time :: real
  train_num_steps :: int
  train_sum_returns :: real
  train_num_episodes :: int
  train_num_collision :: int
  train_average_return :: real
  eval_sum_returns :: real
  eval_num_episodes :: int
  eval_num_collision :: int
  eval_average_return :: real
  save_dir_exists :: bool
  trace :: "event list"

definition emit :: "event \<Rightarrow> 'a locals \<Rightarrow> 'a locals" where
  "emit e s = s\<lparr>trace := trace s @ [e]\<rparr>"

definition emit_if :: "bool \<Rightarrow> event \<Rightarrow> 'a locals \<Rightarrow> 'a locals" where
  "emit_if b e s = (if b then emit e s else s)"

type_synonym 'a outcome = "(py_error \<times> event list) + 'a locals"

subsection \<open>Creating the agent (lines 72-96)\<close>

text \<open>Every branch evaluates the name \<^verbatim>\<open>Agent\<close>; an unbound name raises \<^verbatim>\<open>NameError\<close>.\<close>

definition call_Agent ::
  "'a externals \<Rightarrow> agent_module option \<Rightarrow> config \<Rightarrow> agent_kwargs \<Rightarrow> py_error + 'a" where
  "call_Agent X Agent cfg kw =
     (case Agent of
        None \<Rightarrow> Inl NameError
      | Some m \<Rightarrow> Inr (agent_init X m cfg obs_dim act_dim act_limit kw))"

definition create_agent ::
  "'a externals \<Rightarrow> agent_module option \<Rightarrow> config \<Rightarrow> py_error + 'a" where
  "create_agent X Agent cfg =
     (if algo cfg = ''ddpg'' \<or> algo cfg = ''td3'' then call_Agent X Agent cfg no_kwargs
      else if algo cfg = ''sac'' then
        (if length (model_path cfg) > 5
         then call_Agent X Agent cfg (no_kwargs\<lparr>kw_alpha := Some 0.5, kw_load_model := Some True\<rparr>)
         else call_Agent X Agent cfg (no_kwargs\<lparr>kw_alpha := Some 0.5\<rparr>))
      else if algo cfg = ''asac'' then
        call_Agent X Agent cfg (no_kwargs\<lparr>kw_automatic_entropy_tuning := Some True\<rparr>)
      else if algo cfg = ''tac'' then
        call_Agent X Agent cfg
          (no_kwargs\<lparr>kw_alpha := Some 0.5, kw_log_type := Some ''log-q'',
                     kw_entropic_index := Some 1.2\<rparr>)
      else if algo cfg = ''atac'' then
        call_Agent X Agent cfg
          (no_kwargs\<lparr>kw_log_type := Some ''log-q'', kw_entropic_index := Some 1.2,
                     kw_automatic_entropy_tuning := Some True\<rparr>)
      else call_Agent X Agent cfg no_kwargs)"

subsection \<open>One training episode (lines 116-133)\<close>

definition train_episode :: "'a externals \<Rightarrow> config \<Rightarrow> int \<Rightarrow> 'a locals \<Rightarrow> 'a locals" where
  "train_episode X cfg episode s =
     (let s = s\<lparr>eval_mode := False\<rparr>;
          (r, ag) = agent_run X (agent s) (eval_mode s) (max_step cfg);
          s = emit (Run (eval_mode s) (max_step cfg) r) (s\<lparr>agent := ag\<rparr>);
          s = (if collision r then s\<lparr>train_num_collision := train_num_collision s + 1\<rparr> else s);
          s = s\<lparr>train_num_steps := train_num_steps s + int (step_length r)\<rparr>;
          s = s\<lparr>train_sum_returns := float_add X (train_sum_returns s) (episode_return r)\<rparr>;
          s = s\<lparr>train_num_episodes := train_num_episodes s + 1\<rparr>;
          s = s\<lparr>train_average_return :=
                  average_return X (train_sum_returns s) (train_num_episodes s)\<rparr>;
          s = emit_if (tensorboard cfg)
                (Scalar ''Train/AverageReturns'' (train_average_return s) episode) s;
          s = emit_if (tensorboard cfg)
                (Scalar ''Train/EpisodeReturns'' (episode_return r) episode) s;
          s = emit_if (tensorboard cfg \<and> (algo cfg = ''asac'' \<or> algo cfg = ''atac''))
                (Scalar ''Train/Alpha'' (agent_alpha X (agent s)) episode) s
      in s)"

subsection \<open>One evaluation block (lines 137-184)\<close>

text \<open>One evaluation episode, the body of the inner loop (lines 147-153).\<close>

definition eval_episode ::
  "'a externals \<Rightarrow> config \<Rightarrow> int \<Rightarrow> int \<Rightarrow> 'a locals \<Rightarrow> 'a locals" where
  "eval_episode X cfg episode i s =
     (let (r, ag) = agent_run X (agent s) (eval_mode s) (max_step cfg);
          s = emit (Run (eval_mode s) (max_step cfg) r) (s\<lparr>agent := ag\<rparr>);
          s = s\<lparr>eval_sum_returns := float_add X (eval_sum_returns s) (episode_return r)\<rparr>;
          s = s\<lparr>eval_num_episodes := eval_num_episodes s + 1\<rparr>;
          s = (if collision r then s\<lparr>eval_num_collision := eval_num_collision s + 1\<rparr> else s);
          s = emit_if (tensorboard cfg)
                (Scalar ''Eval/EpisodeReturns'' (episode_return r)
                   (episode - evaluation_eps cfg + i)) s
      in s)"

text \<open>The inner loop \<^verbatim>\<open>for i in range(args.evaluation_eps)\<close>.\<close>

fun eval_loop ::
  "'a externals \<Rightarrow> config \<Rightarrow> int \<Rightarrow> int list \<Rightarrow> 'a locals \<Rightarrow> 'a locals" where
  "eval_loop X cfg episode [] s = s"
| "eval_loop X cfg episode (i # is) s =
     eval_loop X cfg episode is (eval_episode X cfg episode i s)"

text \<open>Lines 137-144: the training collision rate, and the reset of the counters.\<close>

definition begin_eval :: "config \<Rightarrow> int \<Rightarrow> 'a locals \<Rightarrow> 'a outcome" where
  "begin_eval cfg episode s =
     (case (if tensorboard cfg
            then (case py_truediv (train_num_collision s) (eval_per_train cfg) of
                    Inl e \<Rightarrow> Inl (e, trace s)
                  | Inr rate \<Rightarrow> Inr (emit (Scalar ''Train/CollisionRate'' rate episode) s))
            else Inr s) of
        Inl e \<Rightarrow> Inl e
      | Inr s \<Rightarrow>
          Inr (s\<lparr>train_num_collision := 0, eval_mode := True,
                 eval_sum_returns := 0, eval_num_episodes := 0, eval_num_collision := 0\<rparr>))"

text \<open>Lines 155-160: the evaluation average and the evaluation scalars.\<close>

definition log_eval :: "'a externals \<Rightarrow> config \<Rightarrow> int \<Rightarrow> 'a locals \<Rightarrow> 'a outcome" where
  "log_eval X cfg episode s =
     (let s = s\<lparr>eval_average_return :=
                  average_return X (eval_sum_returns s) (eval_num_episodes s)\<rparr>
      in if tensorboard cfg
         then (let s = emit (Scalar ''Eval/AverageReturns'' (eval_average_return s) episode) s
               in case py_truediv (eval_num_collision s) (evaluation_eps cfg) of
                    Inl e \<Rightarrow> Inl (e, trace s)
                  | Inr rate \<Rightarrow> Inr (emit (Scalar ''Eval/CollisionRate'' rate episode) s))
         else Inr s)"

text \<open>Lines 162-171: the summary on standard output.\<close>

definition rule_line :: string where
  "rule_line = ''---------------------------------------''"

definition print_summary :: "'a externals \<Rightarrow> config \<Rightarrow> int \<Rightarrow> 'a locals \<Rightarrow> 'a outcome" where
  "print_summary X cfg episode s =
     (let s = emit (Print rule_line VNone) s;
          s = emit (Print ''Steps:'' (VInt (train_num_steps s))) s;
          s = emit (Print ''Episodes:'' (VInt (train_num_episodes s))) s;
          s = emit (Print ''AverageReturn:'' (VFloat (round2 X (train_average_return s)))) s;
          s = emit (Print ''EvalEpisodes:'' (VInt (eval_num_episodes s))) s;
          s = emit (Print ''EvalAverageReturn:'' (VFloat (round2 X (eval_average_return s)))) s
      in case py_truediv (eval_num_collision s) (evaluation_eps cfg) of
           Inl e \<Rightarrow> Inl (e, trace s)
         | Inr rate \<Rightarrow>
             (let s = emit (Print ''CollisionRate:'' (VFloat (round2 X rate))) s;
                  s = emit (Print ''OtherLogs:'' (VStr (agent_logger X (agent s)))) s;
                  s = emit (Print ''Time:''
                        (VInt (int_of_float
                           (float_add X (time_time X episode) (- start_time s))))) s;
                  s = emit (Print rule_line VNone) s
              in Inr s))"

text \<open>
  Lines 174-184: saving the model. \<^verbatim>\<open>os.mkdir\<close> is taken to succeed, that is, the parent
  directory \<^verbatim>\<open>./tests\<close> to exist; the outer \<^verbatim>\<open>os.path.join\<close> has one argument and
  returns it.
\<close>

definition save_dir :: string where
  "save_dir = ''./tests/save_model''"

definition ckpt_path :: "'a externals \<Rightarrow> config \<Rightarrow> 'a locals \<Rightarrow> string" where
  "ckpt_path X cfg s =
     ''./tests/save_model/'' @ env cfg @ ''_'' @ algo cfg
       @ ''_s_'' @ str_int (seed cfg)
       @ ''_ep_'' @ str_int (train_num_episodes s)
       @ ''_tr_'' @ str_float X (round2 X (train_average_return s))
       @ ''_er_'' @ str_float X (round2 X (eval_average_return s)) @ ''.pt''"

definition save_model :: "'a externals \<Rightarrow> config \<Rightarrow> 'a locals \<Rightarrow> 'a locals" where
  "save_model X cfg s =
     (if eval_average_return s \<ge> real_of_int (threshold_return cfg)
      then (let s = (if \<not> save_dir_exists s
                     then emit (Mkdir save_dir) (s\<lparr>save_dir_exists := True\<rparr>)
                     else s)
            in emit (Save (ckpt_path X cfg s)) s)
      else s)"

text \<open>The body of the \<^verbatim>\<open>if\<close> at line 136.\<close>

definition eval_block :: "'a externals \<Rightarrow> config \<Rightarrow> int \<Rightarrow> 'a locals \<Rightarrow> 'a outcome" where
  "eval_block X cfg episode s =
     (case begin_eval cfg episode s of
        Inl e \<Rightarrow> Inl e
      | Inr s \<Rightarrow>
          (case log_eval X cfg episode
                  (eval_loop X cfg episode [0 .. evaluation_eps cfg - 1] s) of
             Inl e \<Rightarrow> Inl e
           | Inr s \<Rightarrow>
               (case print_summary X cfg episode s of
                  Inl e \<Rightarrow> Inl e
                | Inr s \<Rightarrow> Inr (save_model X cfg s))))"

subsection \<open>The episode loop (lines 114-184)\<close>

text \<open>
  The condition \<^verbatim>\<open>episode > 0 and episode % args.eval_per_train == 0\<close>: the modulo
  is evaluated only when the first conjunct holds.
\<close>

definition eval_due :: "config \<Rightarrow> int \<Rightarrow> py_error + bool" where
  "eval_due cfg episode =
     (if episode > 0
      then (case py_mod episode (eval_per_train cfg) of
              Inl e \<Rightarrow> Inl e
            | Inr m \<Rightarrow> Inr (m = 0))
      else Inr False)"

definition loop_body :: "'a externals \<Rightarrow> config \<Rightarrow> int \<Rightarrow> 'a locals \<Rightarrow> 'a outcome" where
  "loop_body X cfg episode s =
     (let s = train_episode X cfg episode s
      in case eval_due cfg episode of
           Inl e \<Rightarrow> Inl (e, trace s)
         | Inr True \<Rightarrow> eval_block X cfg episode s
         | Inr False \<Rightarrow> Inr s)"

text \<open>\<^verbatim>\<open>for episode in range(1, args.training_eps+1)\<close>, stopping at an exception.\<close>

fun episode_loop ::
  "'a externals \<Rightarrow> config \<Rightarrow> int list \<Rightarrow> 'a locals \<Rightarrow> 'a outcome" where
  "episode_loop X cfg [] s = Inr s"
| "episode_loop X cfg (episode # es) s =
     (case loop_body X cfg episode s of
        Inl e \<Rightarrow> Inl e
      | Inr s' \<Rightarrow> episode_loop X cfg es s')"

subsection \<open>\<^verbatim>\<open>main\<close> and the whole script\<close>

definition dir_name :: "'a externals \<Rightarrow> config \<Rightarrow> string" where
  "dir_name X cfg =
     ''runs/'' @ env cfg @ ''/'' @ algo cfg @ ''_s_'' @ str_int (seed cfg)
       @ ''_t_'' @ timestamp X"

text \<open>Lines 60-70: the environment, the two printed lines and the seeding.\<close>

definition startup_trace :: "config \<Rightarrow> event list" where
  "startup_trace cfg =
     [EnvCreated,
      Print ''State dimension:'' (VInt obs_dim),
      Print ''Action dimension:'' (VInt act_dim),
      Seeded (seed cfg), Seeded (seed cfg)]"

text \<open>Lines 98-111: the writer, the clock and the initial values of the locals.\<close>

definition initial_locals :: "'a externals \<Rightarrow> config \<Rightarrow> bool \<Rightarrow> 'a \<Rightarrow> 'a locals" where
  "initial_locals X cfg dir_exists ag =
     \<lparr>agent = ag, eval_mode = False, start_time = time_time X 0,
      train_num_steps = 0, train_sum_returns = 0, train_num_episodes = 0,
      train_num_collision = 0, train_average_return = 0,
      eval_sum_returns = 0, eval_num_episodes = 0, eval_num_collision = 0,
      eval_average_return = 0, save_dir_exists = dir_exists,
      trace = startup_trace cfg
        @ (if tensorboard cfg then [WriterCreated (dir_name X cfg)] else [])\<rparr>"

text \<open>
  \<^verbatim>\<open>main()\<close>, given the binding of the global name \<^verbatim>\<open>Agent\<close> and whether the
  checkpoint directory exists when the script starts.
\<close>

definition main ::
  "'a externals \<Rightarrow> config \<Rightarrow> agent_module option \<Rightarrow> bool \<Rightarrow> 'a outcome" where
  "main X cfg Agent dir_exists =
     (case create_agent X Agent cfg of
        Inl e \<Rightarrow> Inl (e, startup_trace cfg)
      | Inr ag \<Rightarrow>
          episode_loop X cfg [1 .. training_eps cfg] (initial_locals X cfg dir_exists ag))"

text \<open>The script: the import chain at module level, then \<^verbatim>\<open>main()\<close>.\<close>

definition script :: "'a externals \<Rightarrow> config \<Rightarrow> bool \<Rightarrow> 'a outcome" where
  "script X cfg dir_exists = main X cfg (import_chain (algo cfg)) dir_exists"

subsection \<open>Reading the trace\<close>

text \<open>The calls \<^verbatim>\<open>agent.run\<close> of a trace, oldest first: the mode of the agent and the result.\<close>

fun run_calls :: "event list \<Rightarrow> (bool \<times> episode_result) list" where
  "run_calls [] = []"
| "run_calls (Run m k r # es) = (m, r) # run_calls es"
| "run_calls (e # es) = run_calls es"

text \<open>The results of the training episodes, and of the evaluation episodes.\<close>

definition train_results :: "event list \<Rightarrow> episode_result list" where
  "train_results tr = map snd (filter (\<lambda>c. \<not> fst c) (run_calls tr))"

definition eval_results :: "event list \<Rightarrow> episode_result list" where
  "eval_results tr = map snd (filter fst (run_calls tr))"

text \<open>The points \<open>(step, value)\<close> written to the metrics sink under one tag.\<close>

fun scalars :: "string \<Rightarrow> event list \<Rightarrow> (int \<times> real) list" where
  "scalars tag [] = []"
| "scalars tag (Scalar t v n # es) = (if t = tag then (n, v) # scalars tag es else scalars tag es)"
| "scalars tag (e # es) = scalars tag es"

text \<open>The paths of the checkpoints written, and of the directories created.\<close>

fun saves :: "event list \<Rightarrow> string list" where
  "saves [] = []"
| "saves (Save p # es) = p # saves es"
| "saves (e # es) = saves es"

fun mkdirs :: "event list \<Rightarrow> string list" where
  "mkdirs [] = []"
| "mkdirs (Mkdir p # es) = p # mkdirs es"
| "mkdirs (e # es) = mkdirs es"

text \<open>
  An evaluation block that runs to its end prints the line \<^verbatim>\<open>Time:\<close> once.
  \<open>block_positions n tr\<close> lists, for every such line of \<open>tr\<close>, how many training episodes
  had been run when it was printed, \<open>n\<close> of them before \<open>tr\<close>.
\<close>

fun block_positions :: "nat \<Rightarrow> event list \<Rightarrow> nat list" where
  "block_positions n [] = []"
| "block_positions n (Run m k r # es) = block_positions (if m then n else Suc n) es"
| "block_positions n (Print l v # es) =
     (if l = ''Time:'' then n # block_positions n es else block_positions n es)"
| "block_positions n (e # es) = block_positions n es"

text \<open>The ten lines of one summary (lines 162-171), for the locals at that point.\<close>

definition summary_lines :: "'a externals \<Rightarrow> config \<Rightarrow> int \<Rightarrow> 'a locals \<Rightarrow> event list" where
  "summary_lines X cfg e s =
     [Print rule_line VNone,
      Print ''Steps:'' (VInt (train_num_steps s)),
      Print ''Episodes:'' (VInt (train_num_episodes s)),
      Print ''AverageReturn:'' (VFloat (round2 X (train_average_return s))),
      Print ''EvalEpisodes:'' (VInt (eval_num_episodes s)),
      Print ''EvalAverageReturn:'' (VFloat (round2 X (eval_average_return s))),
      Print ''CollisionRate:''
        (VFloat (round2 X (real_of_int (eval_num_collision s) / real_of_int (evaluation_eps cfg)))),
      Print ''OtherLogs:'' (VStr (agent_logger X (agent s))),
      Print ''Time:'' (VInt (int_of_float (float_add X (time_time X e) (- start_time s)))),
      Print rule_line VNone]"

text \<open>The number of collision flags among episode results.\<close>

definition collisions :: "episode_result list \<Rightarrow> nat" where
  "collisions rs = length (filter collision rs)"


text \<open>The arithmetic mean of the returns of episode results, in exact arithmetic.\<close>

definition mean_return :: "episode_result list \<Rightarrow> real" where
  "mean_return rs = sum_list (map episode_return rs) / real (length rs)"

subsection \<open>A deterministic stub of the collaborators\<close>

text \<open>
  An agent that replays a fixed list of episode results, whatever its mode, and returns
  \<open>(0, 0, False)\<close> once the list is used up. The arithmetic of the stub is exact and
  \<^verbatim>\<open>round\<close> is the identity; a float with an integral value prints as Python prints it
  (\<^verbatim>\<open>15.0\<close>) and any other as \<^verbatim>\<open>x\<close>; the clock stands still.
\<close>

definition stub_str_float :: "real \<Rightarrow> string" where
  "stub_str_float x = (if x = of_int \<lfloor>x\<rfloor> then str_int \<lfloor>x\<rfloor> @ ''.0'' else ''x'')"

definition replay_run ::
  "episode_result list \<Rightarrow> bool \<Rightarrow> int \<Rightarrow> episode_result \<times> episode_result list" where
  "replay_run ag m k = (case ag of [] \<Rightarrow> ((0, 0, False), []) | r # rs \<Rightarrow> (r, rs))"

definition replay :: "episode_result list \<Rightarrow> episode_result list externals" where
  "replay rs =
     \<lparr>agent_init = (\<lambda>m cfg od ad al kw. rs), agent_run = replay_run,
      agent_alpha = (\<lambda>ag. 0), agent_logger = (\<lambda>ag. []),
      float_add = (\<lambda>x y. x + y), float_div = (\<lambda>x n. x / real_of_int n),
      round2 = (\<lambda>x. x), str_float = stub_str_float,
      time_time = (\<lambda>e. 0), timestamp = []\<rparr>"

subsection \<open>The arithmetic of doubles\<close>

text \<open>
  IEEE 754 binary64, rounding to nearest with ties to even: a non-zero real \<open>x\<close> with
  \<open>2 ^ e \<le> \<bar>x\<bar> < 2 ^ (e + 1)\<close> is rounded to a multiple of \<open>2 ^ (max e (-1022) - 52)\<close>, the
  spacing of the doubles around it (\<open>e < -1022\<close> is the subnormal range). The result is the
  double Python computes as long as it is finite, that is, of magnitude below \<open>2 ^ 1024\<close>;
  beyond that Python yields an infinity, which has no value here.
\<close>

definition round_half_even :: "real \<Rightarrow> int" where
  "round_half_even y =
     (let f = \<lfloor>y\<rfloor>
      in if y - of_int f < 1 / 2 then f
         else if 1 / 2 < y - of_int f then f + 1
         else if even f then f else f + 1)"

definition double_quantum :: "real \<Rightarrow> int" where
  "double_quantum x = max \<lfloor>log 2 \<bar>x\<bar>\<rfloor> (- 1022) - 52"

definition double_round :: "real \<Rightarrow> real" where
  "double_round x =
     (if x = 0 then 0
      else of_int (round_half_even (x / 2 powi double_quantum x)) * 2 powi double_quantum x)"

text \<open>
  \<^verbatim>\<open>x + y\<close> on doubles, and \<^verbatim>\<open>x / n\<close> for a double \<open>x\<close> and an integer \<open>n\<close>, which Python
  converts to a double first.
\<close>

definition double_add :: "real \<Rightarrow> real \<Rightarrow> real" where
  "double_add x y = double_round (x + y)"

definition double_div :: "real \<Rightarrow> int \<Rightarrow> real" where
  "double_div x n = double_round (x / double_round (real_of_int n))"

text \<open>The replaying stub with the arithmetic of doubles.\<close>

definition replay_double :: "episode_result list \<Rightarrow> episode_result list externals" where
  "replay_double rs = (replay rs)\<lparr>float_add := double_add, float_div := double_div\<rparr>"

subsection \<open>Sums and means as the script computes them\<close>

text \<open>
  The sum of the returns of episode results as the loops of the script form it: starting
  from \<^verbatim>\<open>0.\<close> and adding the returns one by one, in order, with the addition of floats;
  and that sum divided by the number of results, with the division of floats.
\<close>

definition float_sum :: "'a externals \<Rightarrow> episode_result list \<Rightarrow> real" where
  "float_sum X rs = foldl (float_add X) 0 (map episode_return rs)"

definition float_mean :: "'a externals \<Rightarrow> episode_result list \<Rightarrow> real" where
  "float_mean X rs = float_div X (float_sum X rs) (int (length rs))"

text \<open>A configuration with one training episode followed by one evaluation episode.\<close>

definition one_episode_config :: config where
  "one_episode_config =
     default_config\<lparr>training_eps := 1, eval_per_train := 1, evaluation_eps := 1\<rparr>"

subsection \<open>What a run shows apart from the clock\<close>

text \<open>
  Two runs of the script differ in what the clock reads: the time stamp in the directory of
  the metrics writer, the reading \<^verbatim>\<open>start_time\<close> and the line \<^verbatim>\<open>Time:\<close> of each summary.
  \<open>observe\<close> removes exactly these from the outcome of a run and keeps the rest: the
  scalars, the other printed lines, the calls of the agent, the checkpoints and the locals.
\<close>

definition timeless :: "event \<Rightarrow> bool" where
  "timeless ev =
     (case ev of WriterCreated p \<Rightarrow> False | Print l v \<Rightarrow> l \<noteq> ''Time:'' | _ \<Rightarrow> True)"

definition erase_time :: "'a locals \<Rightarrow> 'a locals" where
  "erase_time s = s\<lparr>start_time := 0, trace := filter timeless (trace s)\<rparr>"

definition observe :: "'a outcome \<Rightarrow> 'a outcome" where
  "observe out =
     (case out of
        Inl (err, tr) \<Rightarrow> Inl (err, filter timeless tr)
      | Inr s \<Rightarrow> Inr (erase_time s))"

lemma run_calls_append: "run_calls (xs @ ys) = run_calls xs @ run_calls ys"
  by (induction xs rule: run_calls.induct) simp_all

lemma train_results_append: "train_results (xs @ ys) = train_results xs @ train_results ys"
  by (simp add: train_results_def run_calls_append)

lemma eval_results_append: "eval_results (xs @ ys) = eval_results xs @ eval_results ys"
  by (simp add: eval_results_def run_calls_append)

lemma scalars_append: "scalars tag (xs @ ys) = scalars tag xs @ scalars tag ys"
  by (induction tag xs rule: scalars.induct) simp_all

lemma saves_append: "saves (xs @ ys) = saves xs @ saves ys"
  by (induction xs rule: saves.induct) simp_all

lemma mkdirs_append: "mkdirs (xs @ ys) = mkdirs xs @ mkdirs ys"
  by (induction xs rule: mkdirs.induct) simp_all

lemma block_positions_append:
  "block_positions n (xs @ ys) =
     block_positions n xs @ block_positions (n + length (train_results xs)) ys"
  by (induction n xs rule: block_positions.induct) (simp_all add: train_results_def)


lemmas step_defs = Let_def emit_def emit_if_def

lemma train_episode_run_calls:
  "run_calls (trace (train_episode X cfg e s)) =
     run_calls (trace s) @ [(False, fst (agent_run X (agent s) False (max_step cfg)))]"
  by (simp add: train_episode_def step_defs run_calls_append split: prod.split)

lemma train_episode_saves: "saves (trace (train_episode X cfg e s)) = saves (trace s)"
  by (simp add: train_episode_def step_defs saves_append split: prod.split)

lemma train_episode_mkdirs: "mkdirs (trace (train_episode X cfg e s)) = mkdirs (trace s)"
  by (simp add: train_episode_def step_defs mkdirs_append split: prod.split)

lemma train_episode_block_positions:
  "block_positions n (trace (train_episode X cfg e s)) = block_positions n (trace s)"
  by (simp add: train_episode_def step_defs block_positions_append split: prod.split)

lemma train_episode_fields:
  "eval_mode (train_episode X cfg e s) = False"
  "start_time (train_episode X cfg e s) = start_time s"
  "save_dir_exists (train_episode X cfg e s) = save_dir_exists s"
  "eval_sum_returns (train_episode X cfg e s) = eval_sum_returns s"
  "eval_num_episodes (train_episode X cfg e s) = eval_num_episodes s"
  "eval_num_collision (train_episode X cfg e s) = eval_num_collision s"
  "eval_average_return (train_episode X cfg e s) = eval_average_return s"
  "agent (train_episode X cfg e s) = snd (agent_run X (agent s) False (max_step cfg))"
  by (simp_all add: train_episode_def step_defs split: prod.split)

lemma train_episode_aggregate:
  "train_num_steps (train_episode X cfg e s) =
     train_num_steps s + int (step_length (fst (agent_run X (agent s) False (max_step cfg))))"
  "train_sum_returns (train_episode X cfg e s) =
     float_add X (train_sum_returns s)
       (episode_return (fst (agent_run X (agent s) False (max_step cfg))))"
  "train_num_episodes (train_episode X cfg e s) = train_num_episodes s + 1"
  "train_num_collision (train_episode X cfg e s) =
     train_num_collision s + (if collision (fst (agent_run X (agent s) False (max_step cfg))) then 1 else 0)"
  "train_average_return (train_episode X cfg e s) =
     average_return X (train_sum_returns (train_episode X cfg e s))
       (train_num_episodes (train_episode X cfg e s))"
  by (simp_all add: train_episode_def step_defs split: prod.split)

lemma train_episode_train_results:
  "train_results (trace (train_episode X cfg e s)) =
     train_results (trace s) @ [fst (agent_run X (agent s) False (max_step cfg))]"
  by (simp add: train_results_def train_episode_run_calls)

lemma train_episode_eval_results:
  "eval_results (trace (train_episode X cfg e s)) = eval_results (trace s)"
  by (simp add: eval_results_def train_episode_run_calls)


subsection \<open>eval_episode\<close>

lemma eval_episode_run_calls:
  "run_calls (trace (eval_episode X cfg e i s)) =
     run_calls (trace s) @ [(eval_mode s, fst (agent_run X (agent s) (eval_mode s) (max_step cfg)))]"
  by (simp add: eval_episode_def step_defs run_calls_append split: prod.split)

lemma eval_episode_saves: "saves (trace (eval_episode X cfg e i s)) = saves (trace s)"
  by (simp add: eval_episode_def step_defs saves_append split: prod.split)

lemma eval_episode_mkdirs: "mkdirs (trace (eval_episode X cfg e i s)) = mkdirs (trace s)"
  by (simp add: eval_episode_def step_defs mkdirs_append split: prod.split)

lemma eval_episode_block_positions:
  "eval_mode s \<Longrightarrow>
     block_positions n (trace (eval_episode X cfg e i s)) = block_positions n (trace s)"
  by (simp add: eval_episode_def step_defs block_positions_append train_results_def
      split: prod.split)


lemma eval_episode_fields:
  "eval_mode (eval_episode X cfg e i s) = eval_mode s"
  "start_time (eval_episode X cfg e i s) = start_time s"
  "save_dir_exists (eval_episode X cfg e i s) = save_dir_exists s"
  "train_num_steps (eval_episode X cfg e i s) = train_num_steps s"
  "train_sum_returns (eval_episode X cfg e i s) = train_sum_returns s"
  "train_num_episodes (eval_episode X cfg e i s) = train_num_episodes s"
  "train_num_collision (eval_episode X cfg e i s) = train_num_collision s"
  "train_average_return (eval_episode X cfg e i s) = train_average_return s"
  "eval_average_return (eval_episode X cfg e i s) = eval_average_return s"
  by (simp_all add: eval_episode_def step_defs split: prod.split)

lemma eval_episode_aggregate:
  "eval_sum_returns (eval_episode X cfg e i s) =
     float_add X (eval_sum_returns s)
       (episode_return (fst (agent_run X (agent s) (eval_mode s) (max_step cfg))))"
  "eval_num_episodes (eval_episode X cfg e i s) = eval_num_episodes s + 1"
  "eval_num_collision (eval_episode X cfg e i s) =
     eval_num_collision s
       + (if collision (fst (agent_run X (agent s) (eval_mode s) (max_step cfg))) then 1 else 0)"
  by (simp_all add: eval_episode_def step_defs split: prod.split)

subsection \<open>eval_loop\<close>

lemma eval_loop_saves: "saves (trace (eval_loop X cfg e js s)) = saves (trace s)"
  by (induction js arbitrary: s) (simp_all add: eval_episode_saves)

lemma eval_loop_mkdirs: "mkdirs (trace (eval_loop X cfg e js s)) = mkdirs (trace s)"
  by (induction js arbitrary: s) (simp_all add: eval_episode_mkdirs)


lemma eval_loop_fields:
  "eval_mode (eval_loop X cfg e js s) = eval_mode s"
  "start_time (eval_loop X cfg e js s) = start_time s"
  "save_dir_exists (eval_loop X cfg e js s) = save_dir_exists s"
  "train_num_steps (eval_loop X cfg e js s) = train_num_steps s"
  "train_sum_returns (eval_loop X cfg e js s) = train_sum_returns s"
  "train_num_episodes (eval_loop X cfg e js s) = train_num_episodes s"
  "train_num_collision (eval_loop X cfg e js s) = train_num_collision s"
  "train_average_return (eval_loop X cfg e js s) = train_average_return s"
  "eval_average_return (eval_loop X cfg e js s) = eval_average_return s"
  by (induction js arbitrary: s) (simp_all add: eval_episode_fields)

lemma eval_loop_block_positions:
  "eval_mode s \<Longrightarrow>
     block_positions n (trace (eval_loop X cfg e js s)) = block_positions n (trace s)"
  by (induction js arbitrary: s)
    (simp_all add: eval_episode_block_positions eval_episode_fields)

text \<open>What the inner loop adds: one call per index, in the mode the loop started in.\<close>

lemma eval_loop_effect:
  "\<exists>rs. length rs = length js
     \<and> run_calls (trace (eval_loop X cfg e js s)) = run_calls (trace s) @ map (Pair (eval_mode s)) rs
     \<and> eval_sum_returns (eval_loop X cfg e js s) =
         foldl (float_add X) (eval_sum_returns s) (map episode_return rs)
     \<and> eval_num_episodes (eval_loop X cfg e js s) = eval_num_episodes s + int (length rs)
     \<and> eval_num_collision (eval_loop X cfg e js s) = eval_num_collision s + int (collisions rs)"
proof (induction js arbitrary: s)
  case Nil
  show ?case by (simp add: collisions_def)
next
  case (Cons j js)
  let ?r = "fst (agent_run X (agent s) (eval_mode s) (max_step cfg))"
  let ?s1 = "eval_episode X cfg e j s"
  from Cons.IH [of ?s1] obtain rs where rs:
    "length rs = length js"
    "run_calls (trace (eval_loop X cfg e js ?s1)) = run_calls (trace ?s1) @ map (Pair (eval_mode ?s1)) rs"
    "eval_sum_returns (eval_loop X cfg e js ?s1) =
       foldl (float_add X) (eval_sum_returns ?s1) (map episode_return rs)"
    "eval_num_episodes (eval_loop X cfg e js ?s1) = eval_num_episodes ?s1 + int (length rs)"
    "eval_num_collision (eval_loop X cfg e js ?s1) = eval_num_collision ?s1 + int (collisions rs)"
    by blast
  have "length (?r # rs) = length (j # js)"
    using rs(1) by simp
  moreover have "run_calls (trace (eval_loop X cfg e (j # js) s)) =
      run_calls (trace s) @ map (Pair (eval_mode s)) (?r # rs)"
    using rs(2) by (simp add: eval_episode_run_calls eval_episode_fields)
  moreover have "eval_sum_returns (eval_loop X cfg e (j # js) s) =
      foldl (float_add X) (eval_sum_returns s) (map episode_return (?r # rs))"
    using rs(3) by (simp add: eval_episode_aggregate)
  moreover have "eval_num_episodes (eval_loop X cfg e (j # js) s) =
      eval_num_episodes s + int (length (?r # rs))"
    using rs(4) by (simp add: eval_episode_aggregate)
  moreover have "eval_num_collision (eval_loop X cfg e (j # js) s) =
      eval_num_collision s + int (collisions (?r # rs))"
    using rs(5) by (simp add: eval_episode_aggregate collisions_def)
  ultimately show ?case by blast
qed

lemma length_upto_from_0: "length [0 .. n - 1] = nat n"
  by simp

lemmas proj_append = run_calls_append train_results_append eval_results_append scalars_append
  saves_append mkdirs_append block_positions_append

subsection \<open>The parts of an evaluation block\<close>

lemma begin_eval_Inr_iff:
  "begin_eval cfg e s = Inr s1 \<longleftrightarrow>
     (tensorboard cfg \<longrightarrow> eval_per_train cfg \<noteq> 0) \<and>
     s1 = (emit_if (tensorboard cfg)
             (Scalar ''Train/CollisionRate''
                (real_of_int (train_num_collision s) / real_of_int (eval_per_train cfg)) e) s)
          \<lparr>train_num_collision := 0, eval_mode := True,
           eval_sum_returns := 0, eval_num_episodes := 0, eval_num_collision := 0\<rparr>"
  by (auto simp: begin_eval_def py_truediv_def emit_if_def)

lemma begin_eval_Inl_iff:
  "begin_eval cfg e s = Inl (err, tr) \<longleftrightarrow>
     tensorboard cfg \<and> eval_per_train cfg = 0 \<and> err = ZeroDivisionError \<and> tr = trace s"
  by (auto simp: begin_eval_def py_truediv_def emit_if_def)

lemma log_eval_Inr_iff:
  "log_eval X cfg e s = Inr s2 \<longleftrightarrow>
     (tensorboard cfg \<longrightarrow> evaluation_eps cfg \<noteq> 0) \<and>
     s2 = emit_if (tensorboard cfg)
            (Scalar ''Eval/CollisionRate''
               (real_of_int (eval_num_collision s) / real_of_int (evaluation_eps cfg)) e)
            (emit_if (tensorboard cfg)
               (Scalar ''Eval/AverageReturns''
                  (average_return X (eval_sum_returns s) (eval_num_episodes s)) e)
               (s\<lparr>eval_average_return :=
                    average_return X (eval_sum_returns s) (eval_num_episodes s)\<rparr>))"
  by (auto simp: log_eval_def py_truediv_def emit_if_def emit_def Let_def)

lemma log_eval_Inl_iff:
  "log_eval X cfg e s = Inl (err, tr) \<longleftrightarrow>
     tensorboard cfg \<and> evaluation_eps cfg = 0 \<and> err = ZeroDivisionError
     \<and> tr = trace s @ [Scalar ''Eval/AverageReturns''
                  (average_return X (eval_sum_returns s) (eval_num_episodes s)) e]"
  by (auto simp: log_eval_def py_truediv_def emit_if_def emit_def Let_def)

lemma print_summary_Inr_iff:
  "print_summary X cfg e s = Inr s3 \<longleftrightarrow>
     evaluation_eps cfg \<noteq> 0 \<and> s3 = s\<lparr>trace := trace s @ summary_lines X cfg e s\<rparr>"
  by (auto simp: print_summary_def py_truediv_def emit_def Let_def summary_lines_def)

lemma print_summary_Inl_iff:
  "print_summary X cfg e s = Inl (err, tr) \<longleftrightarrow>
     evaluation_eps cfg = 0 \<and> err = ZeroDivisionError
     \<and> tr = trace s @ take 6 (summary_lines X cfg e s)"
  by (auto simp: print_summary_def py_truediv_def emit_def Let_def summary_lines_def)

lemma summary_lines_proj:
  "run_calls (summary_lines X cfg e s) = []"
  "saves (summary_lines X cfg e s) = []"
  "mkdirs (summary_lines X cfg e s) = []"
  "scalars tag (summary_lines X cfg e s) = []"
  "block_positions n (summary_lines X cfg e s) = [n]"
  "train_results (summary_lines X cfg e s) = []"
  "eval_results (summary_lines X cfg e s) = []"
  "saves (take 6 (summary_lines X cfg e s)) = []"
  "run_calls (take 6 (summary_lines X cfg e s)) = []"
  by (simp_all add: summary_lines_def rule_line_def train_results_def eval_results_def)

lemma save_model_fields:
  "agent (save_model X cfg s) = agent s"
  "eval_mode (save_model X cfg s) = eval_mode s"
  "start_time (save_model X cfg s) = start_time s"
  "train_num_steps (save_model X cfg s) = train_num_steps s"
  "train_sum_returns (save_model X cfg s) = train_sum_returns s"
  "train_num_episodes (save_model X cfg s) = train_num_episodes s"
  "train_num_collision (save_model X cfg s) = train_num_collision s"
  "train_average_return (save_model X cfg s) = train_average_return s"
  "eval_sum_returns (save_model X cfg s) = eval_sum_returns s"
  "eval_num_episodes (save_model X cfg s) = eval_num_episodes s"
  "eval_num_collision (save_model X cfg s) = eval_num_collision s"
  "eval_average_return (save_model X cfg s) = eval_average_return s"
  by (simp_all add: save_model_def emit_def Let_def)

lemma ckpt_path_cong:
  "train_num_episodes s = train_num_episodes s' \<Longrightarrow>
   train_average_return s = train_average_return s' \<Longrightarrow>
   eval_average_return s = eval_average_return s' \<Longrightarrow>
   ckpt_path X cfg s = ckpt_path X cfg s'"
  by (simp add: ckpt_path_def)

lemma save_model_trace:
  "run_calls (trace (save_model X cfg s)) = run_calls (trace s)"
  "scalars tag (trace (save_model X cfg s)) = scalars tag (trace s)"
  "block_positions n (trace (save_model X cfg s)) = block_positions n (trace s)"
  "saves (trace (save_model X cfg s)) =
     saves (trace s) @
       (if real_of_int (threshold_return cfg) \<le> eval_average_return s
        then [ckpt_path X cfg s] else [])"
  "mkdirs (trace (save_model X cfg s)) =
     mkdirs (trace s) @
       (if real_of_int (threshold_return cfg) \<le> eval_average_return s \<and> \<not> save_dir_exists s
        then [save_dir] else [])"
  "save_dir_exists (save_model X cfg s) \<longleftrightarrow>
     save_dir_exists s \<or> real_of_int (threshold_return cfg) \<le> eval_average_return s"
  by (auto simp: save_model_def emit_def Let_def proj_append train_results_def
      intro: ckpt_path_cong)

lemma eval_block_Inr_iff:
  "eval_block X cfg e s = Inr s' \<longleftrightarrow>
     (\<exists>s1 s2 s3. begin_eval cfg e s = Inr s1
        \<and> log_eval X cfg e (eval_loop X cfg e [0 .. evaluation_eps cfg - 1] s1) = Inr s2
        \<and> print_summary X cfg e s2 = Inr s3
        \<and> s' = save_model X cfg s3)"
  by (auto simp: eval_block_def split: sum.splits)

subsection \<open>A whole evaluation block\<close>

lemma train_results_simps:
  "train_results [] = []"
  "train_results (Run m k r # es) = (if m then train_results es else r # train_results es)"
  "train_results (Scalar t v n # es) = train_results es"
  "train_results (Print l pv # es) = train_results es"
  "train_results (Mkdir p # es) = train_results es"
  "train_results (Save p # es) = train_results es"
  by (simp_all add: train_results_def)

lemma eval_block_parts:
  assumes "eval_block X cfg e s = Inr s'"
  obtains s1 s2 s3 where
    "s1 = (emit_if (tensorboard cfg)
             (Scalar ''Train/CollisionRate''
                (real_of_int (train_num_collision s) / real_of_int (eval_per_train cfg)) e) s)
          \<lparr>train_num_collision := 0, eval_mode := True,
           eval_sum_returns := 0, eval_num_episodes := 0, eval_num_collision := 0\<rparr>"
    and "s2 = eval_loop X cfg e [0 .. evaluation_eps cfg - 1] s1"
    and "s3 = emit_if (tensorboard cfg)
            (Scalar ''Eval/CollisionRate''
               (real_of_int (eval_num_collision s2) / real_of_int (evaluation_eps cfg)) e)
            (emit_if (tensorboard cfg)
               (Scalar ''Eval/AverageReturns''
                  (average_return X (eval_sum_returns s2) (eval_num_episodes s2)) e)
               (s2\<lparr>eval_average_return :=
                    average_return X (eval_sum_returns s2) (eval_num_episodes s2)\<rparr>))"
    and "s' = save_model X cfg (s3\<lparr>trace := trace s3 @ summary_lines X cfg e s3\<rparr>)"
    and "evaluation_eps cfg \<noteq> 0"
    and "tensorboard cfg \<longrightarrow> eval_per_train cfg \<noteq> 0"
  using assms
  unfolding eval_block_Inr_iff begin_eval_Inr_iff log_eval_Inr_iff print_summary_Inr_iff
  by blast

lemma eval_block_total:
  assumes "evaluation_eps cfg \<noteq> 0" and "tensorboard cfg \<longrightarrow> eval_per_train cfg \<noteq> 0"
  shows "\<exists>s'. eval_block X cfg e s = Inr s'"
  using assms
  unfolding eval_block_Inr_iff begin_eval_Inr_iff log_eval_Inr_iff print_summary_Inr_iff
  by blast

lemma eval_block_train_fields:
  assumes "eval_block X cfg e s = Inr s'"
  shows "train_num_steps s' = train_num_steps s"
    and "train_sum_returns s' = train_sum_returns s"
    and "train_num_episodes s' = train_num_episodes s"
    and "train_average_return s' = train_average_return s"
    and "train_num_collision s' = 0"
    and "start_time s' = start_time s"
    and "eval_mode s'"
  using assms
  by (auto elim!: eval_block_parts simp: save_model_fields emit_if_def emit_def eval_loop_fields)

lemma eval_block_saves:
  assumes "eval_block X cfg e s = Inr s'"
  shows "saves (trace s') =
     saves (trace s) @
       (if real_of_int (threshold_return cfg) \<le> eval_average_return s'
        then [ckpt_path X cfg s'] else [])"
proof -
  from assms obtain s3 where s': "s' = save_model X cfg s3"
    and s3: "saves (trace s3) = saves (trace s)"
    by (auto elim!: eval_block_parts
        simp: emit_if_def emit_def eval_loop_saves saves_append summary_lines_proj)
  have "ckpt_path X cfg s' = ckpt_path X cfg s3"
    unfolding s' by (rule ckpt_path_cong) (simp_all add: save_model_fields)
  then show ?thesis
    by (simp add: s' save_model_trace save_model_fields s3)
qed

lemma eval_block_mkdirs:
  assumes "eval_block X cfg e s = Inr s'"
  shows "mkdirs (trace s') =
     mkdirs (trace s) @
       (if real_of_int (threshold_return cfg) \<le> eval_average_return s' \<and> \<not> save_dir_exists s
        then [save_dir] else [])"
    and "save_dir_exists s' \<longleftrightarrow>
       save_dir_exists s \<or> real_of_int (threshold_return cfg) \<le> eval_average_return s'"
proof -
  from assms obtain s3 where s': "s' = save_model X cfg s3"
    and s3: "mkdirs (trace s3) = mkdirs (trace s)" "save_dir_exists s3 = save_dir_exists s"
    by (auto elim!: eval_block_parts
        simp: emit_if_def emit_def eval_loop_mkdirs eval_loop_fields mkdirs_append
          summary_lines_proj)
  show "mkdirs (trace s') =
     mkdirs (trace s) @
       (if real_of_int (threshold_return cfg) \<le> eval_average_return s' \<and> \<not> save_dir_exists s
        then [save_dir] else [])"
    by (simp add: s' save_model_trace save_model_fields s3)
  show "save_dir_exists s' \<longleftrightarrow>
       save_dir_exists s \<or> real_of_int (threshold_return cfg) \<le> eval_average_return s'"
    by (simp add: s' save_model_trace save_model_fields s3)
qed

lemma eval_block_runs:
  assumes "eval_block X cfg e s = Inr s'"
  shows "\<exists>rs. length rs = nat (evaluation_eps cfg)
     \<and> run_calls (trace s') = run_calls (trace s) @ map (Pair True) rs
     \<and> eval_sum_returns s' = float_sum X rs
     \<and> eval_num_episodes s' = int (length rs)
     \<and> eval_num_collision s' = int (collisions rs)
     \<and> eval_average_return s' = average_return X (eval_sum_returns s') (eval_num_episodes s')"
proof -
  from assms obtain s1 s2 s3 where
    s1: "s1 = (emit_if (tensorboard cfg)
             (Scalar ''Train/CollisionRate''
                (real_of_int (train_num_collision s) / real_of_int (eval_per_train cfg)) e) s)
          \<lparr>train_num_collision := 0, eval_mode := True,
           eval_sum_returns := 0, eval_num_episodes := 0, eval_num_collision := 0\<rparr>"
    and s2: "s2 = eval_loop X cfg e [0 .. evaluation_eps cfg - 1] s1"
    and s3: "s3 = emit_if (tensorboard cfg)
            (Scalar ''Eval/CollisionRate''
               (real_of_int (eval_num_collision s2) / real_of_int (evaluation_eps cfg)) e)
            (emit_if (tensorboard cfg)
               (Scalar ''Eval/AverageReturns''
                  (average_return X (eval_sum_returns s2) (eval_num_episodes s2)) e)
               (s2\<lparr>eval_average_return :=
                    average_return X (eval_sum_returns s2) (eval_num_episodes s2)\<rparr>))"
    and s': "s' = save_model X cfg (s3\<lparr>trace := trace s3 @ summary_lines X cfg e s3\<rparr>)"
    by (rule eval_block_parts)
  have init: "eval_mode s1 = True" "eval_sum_returns s1 = 0" "eval_num_episodes s1 = 0"
    "eval_num_collision s1 = 0" "run_calls (trace s1) = run_calls (trace s)"
    by (simp_all add: s1 emit_if_def emit_def run_calls_append)
  from eval_loop_effect [of "[0 .. evaluation_eps cfg - 1]" X cfg e s1]
  obtain rs where rs0: "length rs = length [0 .. evaluation_eps cfg - 1]"
    "run_calls (trace s2) = run_calls (trace s1) @ map (Pair (eval_mode s1)) rs"
    "eval_sum_returns s2 = foldl (float_add X) (eval_sum_returns s1) (map episode_return rs)"
    "eval_num_episodes s2 = eval_num_episodes s1 + int (length rs)"
    "eval_num_collision s2 = eval_num_collision s1 + int (collisions rs)"
    unfolding s2 [symmetric] by blast
  have rs: "length rs = nat (evaluation_eps cfg)"
    "run_calls (trace s2) = run_calls (trace s) @ map (Pair True) rs"
    "eval_sum_returns s2 = float_sum X rs"
    "eval_num_episodes s2 = int (length rs)"
    "eval_num_collision s2 = int (collisions rs)"
    using rs0 by (simp_all add: init float_sum_def)
  have after: "run_calls (trace s') = run_calls (trace s2)"
    "eval_sum_returns s' = eval_sum_returns s2"
    "eval_num_episodes s' = eval_num_episodes s2"
    "eval_num_collision s' = eval_num_collision s2"
    "eval_average_return s' = average_return X (eval_sum_returns s2) (eval_num_episodes s2)"
    by (simp_all add: s' s3 save_model_fields save_model_trace emit_if_def emit_def
        run_calls_append summary_lines_proj)
  show ?thesis
    unfolding after using rs by blast
qed

lemma eval_block_train_results:
  assumes "eval_block X cfg e s = Inr s'"
  shows "train_results (trace s') = train_results (trace s)"
proof -
  from eval_block_runs [OF assms] obtain rs where
    "run_calls (trace s') = run_calls (trace s) @ map (Pair True) rs"
    by blast
  then show ?thesis
    by (simp add: train_results_def filter_map comp_def)
qed

lemma eval_block_block_positions:
  assumes "eval_block X cfg e s = Inr s'"
  shows "block_positions n (trace s') =
     block_positions n (trace s) @ [n + length (train_results (trace s))]"
proof -
  from assms obtain s1 s2 s3 where
    s1: "s1 = (emit_if (tensorboard cfg)
             (Scalar ''Train/CollisionRate''
                (real_of_int (train_num_collision s) / real_of_int (eval_per_train cfg)) e) s)
          \<lparr>train_num_collision := 0, eval_mode := True,
           eval_sum_returns := 0, eval_num_episodes := 0, eval_num_collision := 0\<rparr>"
    and s2: "s2 = eval_loop X cfg e [0 .. evaluation_eps cfg - 1] s1"
    and s3: "s3 = emit_if (tensorboard cfg)
            (Scalar ''Eval/CollisionRate''
               (real_of_int (eval_num_collision s2) / real_of_int (evaluation_eps cfg)) e)
            (emit_if (tensorboard cfg)
               (Scalar ''Eval/AverageReturns''
                  (average_return X (eval_sum_returns s2) (eval_num_episodes s2)) e)
               (s2\<lparr>eval_average_return :=
                    average_return X (eval_sum_returns s2) (eval_num_episodes s2)\<rparr>))"
    and s': "s' = save_model X cfg (s3\<lparr>trace := trace s3 @ summary_lines X cfg e s3\<rparr>)"
    by (rule eval_block_parts)
  have m: "eval_mode s1"
    by (simp add: s1)
  have p1: "block_positions k (trace s1) = block_positions k (trace s)" for k
    by (simp add: s1 emit_if_def emit_def block_positions_append)
  have p2: "block_positions k (trace s2) = block_positions k (trace s)" for k
    unfolding s2 by (simp add: eval_loop_block_positions [OF m] p1)
  have t1: "train_results (trace s1) = train_results (trace s)"
    by (simp add: s1 emit_if_def emit_def train_results_def run_calls_append)
  obtain rs where "run_calls (trace s2) = run_calls (trace s1) @ map (Pair True) rs"
    using eval_loop_effect [of "[0 .. evaluation_eps cfg - 1]" X cfg e s1] m
    unfolding s2 by auto
  then have t2: "train_results (trace s2) = train_results (trace s)"
    using t1 by (simp add: train_results_def filter_map comp_def)
  have t3: "train_results (trace s3) = train_results (trace s)"
    "block_positions k (trace s3) = block_positions k (trace s)" for k
    by (simp_all add: s3 emit_if_def emit_def train_results_append block_positions_append
        t2 p2 train_results_simps)
  show ?thesis
    by (simp add: s' save_model_trace block_positions_append summary_lines_proj t3)
qed


lemma eval_block_Inl:
  assumes "eval_block X cfg e s = Inl (err, tr)"
  shows "err = ZeroDivisionError" and "saves tr = saves (trace s)"
    and "evaluation_eps cfg = 0 \<or> eval_per_train cfg = 0"
  using assms
  by (auto simp: eval_block_def begin_eval_Inl_iff begin_eval_Inr_iff log_eval_Inl_iff
      log_eval_Inr_iff print_summary_Inl_iff eval_loop_saves saves_append summary_lines_proj
      emit_if_def emit_def split: sum.splits)

subsection \<open>One iteration of the episode loop\<close>

lemma eval_due_Inr_iff:
  "eval_due cfg e = Inr b \<longleftrightarrow>
     (if e > 0 then eval_per_train cfg \<noteq> 0 \<and> b = (e mod eval_per_train cfg = 0) else \<not> b)"
  by (auto simp: eval_due_def py_mod_def)

lemma eval_due_Inl_iff:
  "eval_due cfg e = Inl err \<longleftrightarrow> e > 0 \<and> eval_per_train cfg = 0 \<and> err = ZeroDivisionError"
  by (auto simp: eval_due_def py_mod_def)

lemma loop_body_cases:
  assumes "loop_body X cfg e s = Inr s'"
  obtains (train) "eval_due cfg e = Inr False" and "s' = train_episode X cfg e s"
  | (eval) "eval_due cfg e = Inr True"
      and "eval_block X cfg e (train_episode X cfg e s) = Inr s'"
  using assms
  by (auto simp: loop_body_def Let_def split: sum.splits bool.splits)

lemma loop_body_total:
  assumes "eval_per_train cfg \<noteq> 0" and "evaluation_eps cfg \<noteq> 0"
  shows "\<exists>s'. loop_body X cfg e s = Inr s'"
proof (cases "e > 0 \<and> e mod eval_per_train cfg = 0")
  case True
  then have "eval_due cfg e = Inr True"
    using assms by (simp add: eval_due_Inr_iff)
  moreover obtain s' where "eval_block X cfg e (train_episode X cfg e s) = Inr s'"
    using eval_block_total [of cfg X e "train_episode X cfg e s"] assms by blast
  ultimately show ?thesis
    by (simp add: loop_body_def Let_def)
next
  case False
  then have "eval_due cfg e = Inr False"
    using assms by (auto simp: eval_due_Inr_iff)
  then show ?thesis
    by (simp add: loop_body_def Let_def)
qed

subsection \<open>The episode loop\<close>

lemma episode_loop_append:
  "episode_loop X cfg (xs @ ys) s =
     (case episode_loop X cfg xs s of
        Inl err \<Rightarrow> Inl err
      | Inr s' \<Rightarrow> episode_loop X cfg ys s')"
  by (induction xs arbitrary: s) (simp_all split: sum.splits)

lemma episode_loop_snoc:
  assumes "1 \<le> k"
  shows "episode_loop X cfg [1 .. k] s =
     (case episode_loop X cfg [1 .. k - 1] s of
        Inl err \<Rightarrow> Inl err
      | Inr s' \<Rightarrow> loop_body X cfg k s')"
proof -
  have "[1 .. k] = [1 .. k - 1] @ [k]"
    using assms by (simp add: upto_rec2)
  then show ?thesis
    by (simp add: episode_loop_append split: sum.splits)
qed

lemma episode_loop_prefix:
  assumes "episode_loop X cfg [1 .. k] s0 = Inr s" and "0 \<le> j" and "j \<le> k"
  shows "\<exists>t. episode_loop X cfg [1 .. j] s0 = Inr t"
proof (cases "j = k")
  case True
  with assms(1) show ?thesis by simp
next
  case False
  then have "[1 .. k] = [1 .. j] @ [j + 1 .. k]"
    using assms(2,3) upto_split1 [of 1 "j + 1" k] by simp
  with assms(1) show ?thesis
    by (auto simp: episode_loop_append split: sum.splits)
qed

text \<open>Induction along the episodes of a run that reaches its end.\<close>

lemma episode_loop_induct:
  assumes run: "episode_loop X cfg [1 .. k] s0 = Inr s"
    and k: "0 \<le> k"
    and base: "P 0 s0"
    and step: "\<And>e t t'. 1 \<le> e \<Longrightarrow> e \<le> k \<Longrightarrow> P (e - 1) t \<Longrightarrow>
                 episode_loop X cfg [1 .. e - 1] s0 = Inr t \<Longrightarrow>
                 loop_body X cfg e t = Inr t' \<Longrightarrow> P e t'"
  shows "P k s"
proof -
  have "j \<le> k \<longrightarrow> (\<forall>t. episode_loop X cfg [1 .. j] s0 = Inr t \<longrightarrow> P j t)" if "0 \<le> j" for j
    using that
  proof (induction j rule: int_ge_induct)
    case base
    show ?case using assms(3) by simp
  next
    case (step i)
    show ?case
    proof (intro impI allI)
      fix t'
      assume le: "i + 1 \<le> k" and run': "episode_loop X cfg [1 .. i + 1] s0 = Inr t'"
      from run' obtain t where t: "episode_loop X cfg [1 .. i] s0 = Inr t"
        and body: "loop_body X cfg (i + 1) t = Inr t'"
        using step.hyps by (auto simp: episode_loop_snoc split: sum.splits)
      have "P i t"
        using step.IH le t by simp
      then show "P (i + 1) t'"
        using assms(4) [of "i + 1" t t'] step.hyps le t body by simp
    qed
  qed
  from this [of k] k run show ?thesis by simp
qed

lemma episode_loop_total:
  assumes "eval_per_train cfg \<noteq> 0" and "evaluation_eps cfg \<noteq> 0"
  shows "\<exists>s'. episode_loop X cfg es s = Inr s'"
proof (induction es arbitrary: s)
  case Nil
  show ?case by simp
next
  case (Cons e es)
  obtain s1 where "loop_body X cfg e s = Inr s1"
    using loop_body_total [OF assms] by blast
  then show ?case
    using Cons.IH [of s1] by simp
qed

subsection \<open>The selector\<close>

lemma import_chain_None_iff: "import_chain a = None \<longleftrightarrow> a \<notin> set algorithms"
  by (simp add: import_chain_def algorithms_def)

lemma create_agent_unbound: "create_agent X None cfg = Inl NameError"
  by (simp add: create_agent_def call_Agent_def)

lemma create_agent_bound: "\<exists>ag. create_agent X (Some m) cfg = Inr ag"
  by (simp add: create_agent_def call_Agent_def)

lemma initial_locals_fields:
  "agent (initial_locals X cfg d ag) = ag"
  "train_num_collision (initial_locals X cfg d ag) = 0"
  "save_dir_exists (initial_locals X cfg d ag) = d"
  "start_time (initial_locals X cfg d ag) = time_time X 0"
  "train_sum_returns (initial_locals X cfg d ag) = 0"
  "train_num_episodes (initial_locals X cfg d ag) = 0"
  by (simp_all add: initial_locals_def)

lemma run_calls_startup: "run_calls (startup_trace cfg) = []"
  by (simp add: startup_trace_def)

text \<open>
  C1 (as amended). For an algorithm identifier outside the enumeration, the import chain
  falls through without raising and leaves \<^verbatim>\<open>Agent\<close> unbound; \<^verbatim>\<open>main\<close> then creates
  the environment, prints the dimensions, sets the seeds and raises \<^verbatim>\<open>NameError\<close> at the
  constructor call of the \<^verbatim>\<open>else\<close> branch, before any episode is run.
\<close>

theorem unknown_algorithm_name_error:
  assumes "algo cfg \<notin> set algorithms"
  shows "import_chain (algo cfg) = None
    \<and> script X cfg d = Inl (NameError, startup_trace cfg)
    \<and> run_calls (startup_trace cfg) = []"
proof -
  from assms have unbound: "import_chain (algo cfg) = None"
    by (simp add: import_chain_None_iff)
  then have "script X cfg d = Inl (NameError, startup_trace cfg)"
    by (simp add: script_def main_def create_agent_unbound)
  with unbound show ?thesis
    by (simp add: run_calls_startup)
qed

theorem unknown_algorithm_name_error_witness:
  "algo (default_config\<lparr>algo := ''dqn''\<rparr>) \<notin> set algorithms
   \<and> import_chain (algo (default_config\<lparr>algo := ''dqn''\<rparr>)) = None
   \<and> script (replay []) (default_config\<lparr>algo := ''dqn''\<rparr>) False =
       Inl (NameError, startup_trace (default_config\<lparr>algo := ''dqn''\<rparr>))
   \<and> run_calls (startup_trace (default_config\<lparr>algo := ''dqn''\<rparr>)) = []"
proof -
  have h: "algo (default_config\<lparr>algo := ''dqn''\<rparr>) \<notin> set algorithms"
    by (simp add: algorithms_def)
  show ?thesis
    using h unknown_algorithm_name_error [OF h, of "replay []" False] by simp
qed

text \<open>
  C1 (as stated) fails: for the identifier \<^verbatim>\<open>dqn\<close> the selector raises nothing and
  binds nothing, and the run ends in a \<^verbatim>\<open>NameError\<close> after the environment has been
  created, not in a configuration error of the selector.
\<close>

theorem unknown_algorithm_counterexample:
  "import_chain ''dqn'' = None
   \<and> script (replay []) (default_config\<lparr>algo := ''dqn''\<rparr>) False =
       Inl (NameError,
            [EnvCreated, Print ''State dimension:'' (VInt 14),
             Print ''Action dimension:'' (VInt 1), Seeded 0, Seeded 0])"
  by (simp add: import_chain_def script_def main_def create_agent_def call_Agent_def
      default_config_def startup_trace_def obs_dim_def act_dim_def)

subsection \<open>Division by a zero count\<close>

lemma eval_block_zero_eps:
  assumes "evaluation_eps cfg = 0"
  shows "\<exists>tr. eval_block X cfg e s = Inl (ZeroDivisionError, tr)"
proof (cases "eval_block X cfg e s")
  case (Inl p)
  obtain err tr where p: "p = (err, tr)"
    by (cases p)
  with Inl eval_block_Inl(1) [of X cfg e s err tr] show ?thesis
    by simp
next
  case (Inr s')
  then have "evaluation_eps cfg \<noteq> 0"
    by (rule eval_block_parts)
  with assms show ?thesis by simp
qed

lemma loop_body_zero_cadence:
  assumes "eval_per_train cfg = 0" and "0 < e"
  shows "loop_body X cfg e s = Inl (ZeroDivisionError, trace (train_episode X cfg e s))"
proof -
  have "eval_due cfg e = Inl ZeroDivisionError"
    using assms by (simp add: eval_due_Inl_iff)
  then show ?thesis
    by (simp add: loop_body_def Let_def)
qed

lemma episode_loop_not_due:
  assumes "\<And>e. e \<in> set es \<Longrightarrow> eval_due cfg e = Inr False"
  shows "\<exists>s'. episode_loop X cfg es s = Inr s'"
  using assms
proof (induction es arbitrary: s)
  case Nil
  show ?case by simp
next
  case (Cons e es)
  have "loop_body X cfg e s = Inr (train_episode X cfg e s)"
    using Cons.prems [of e] by (simp add: loop_body_def Let_def)
  then show ?case
    using Cons.IH [of "train_episode X cfg e s"] Cons.prems by simp
qed

lemma script_zero_cadence:
  assumes "algo cfg \<in> set algorithms" and "eval_per_train cfg = 0" and "1 \<le> training_eps cfg"
  shows "\<exists>tr. script X cfg d = Inl (ZeroDivisionError, tr)"
proof -
  from assms(1) obtain m where m: "import_chain (algo cfg) = Some m"
    using import_chain_None_iff [of "algo cfg"] by auto
  obtain ag where ag: "create_agent X (Some m) cfg = Inr ag"
    using create_agent_bound [of X m cfg] by blast
  have "[1 .. training_eps cfg] = 1 # [2 .. training_eps cfg]"
    using assms(3) by (simp add: upto_rec1)
  then show ?thesis
    using loop_body_zero_cadence [OF assms(2), of 1 X]
    by (simp add: script_def main_def m ag)
qed

lemma script_zero_eps:
  assumes "algo cfg \<in> set algorithms" and "evaluation_eps cfg = 0"
    and "1 \<le> eval_per_train cfg" and "eval_per_train cfg \<le> training_eps cfg"
  shows "\<exists>tr. script X cfg d = Inl (ZeroDivisionError, tr)"
proof -
  let ?C = "eval_per_train cfg"
  from assms(1) obtain m where m: "import_chain (algo cfg) = Some m"
    using import_chain_None_iff [of "algo cfg"] by auto
  obtain ag where ag: "create_agent X (Some m) cfg = Inr ag"
    using create_agent_bound [of X m cfg] by blast
  have split: "[1 .. training_eps cfg] = [1 .. ?C - 1] @ ?C # [?C + 1 .. training_eps cfg]"
    using assms(3,4) by (rule upto_split3)
  have "eval_due cfg e = Inr False" if "e \<in> set [1 .. ?C - 1]" for e
    using that assms(3) by (simp add: eval_due_Inr_iff)
  then obtain s1 where s1:
    "episode_loop X cfg [1 .. ?C - 1] (initial_locals X cfg d ag) = Inr s1"
    using episode_loop_not_due [of "[1 .. ?C - 1]" cfg X] by blast
  have due: "eval_due cfg ?C = Inr True"
    using assms(3) by (simp add: eval_due_Inr_iff)
  obtain tr where "eval_block X cfg ?C (train_episode X cfg ?C s1) = Inl (ZeroDivisionError, tr)"
    using eval_block_zero_eps [OF assms(2)] by blast
  then have "loop_body X cfg ?C s1 = Inl (ZeroDivisionError, tr)"
    using due by (simp add: loop_body_def Let_def)
  then show ?thesis
    by (simp add: script_def main_def m ag split episode_loop_append s1)
qed

lemma eval_block_zero_eps_logged:
  assumes "evaluation_eps cfg = 0" and "tensorboard cfg" and "eval_per_train cfg \<noteq> 0"
  shows "eval_block X cfg e s =
     Inl (ZeroDivisionError,
          trace s @
            [Scalar ''Train/CollisionRate''
               (real_of_int (train_num_collision s) / real_of_int (eval_per_train cfg)) e,
             Scalar ''Eval/AverageReturns'' 0 e])"
  using assms
  by (simp add: eval_block_def begin_eval_def log_eval_def py_truediv_def emit_def Let_def
      average_return_def)

text \<open>
  C10. The two averages are guarded: for a count of zero the guarded quotient is \<open>0\<close>.
  The collision rates and the trigger are not: with \<^verbatim>\<open>evaluation_eps = 0\<close> every
  evaluation block raises \<^verbatim>\<open>ZeroDivisionError\<close> (with the metrics sink on, right after
  it has written the guarded average \<open>0\<close>), and with \<^verbatim>\<open>eval_per_train = 0\<close> every
  iteration of the episode loop raises it, right after its training episode. A run of the
  script that reaches either point ends in that error.
\<close>

theorem zero_count_divisions:
  "average_return X x 0 = 0
   \<and> (evaluation_eps cfg = 0 \<longrightarrow>
        (\<exists>tr. eval_block X cfg e s = Inl (ZeroDivisionError, tr)))
   \<and> (evaluation_eps cfg = 0 \<and> tensorboard cfg \<and> eval_per_train cfg \<noteq> 0 \<longrightarrow>
        eval_block X cfg e s =
          Inl (ZeroDivisionError,
               trace s @
                 [Scalar ''Train/CollisionRate''
                    (real_of_int (train_num_collision s) / real_of_int (eval_per_train cfg)) e,
                  Scalar ''Eval/AverageReturns'' 0 e]))
   \<and> (eval_per_train cfg = 0 \<and> 0 < e \<longrightarrow>
        loop_body X cfg e s = Inl (ZeroDivisionError, trace (train_episode X cfg e s)))
   \<and> (algo cfg \<in> set algorithms \<and> eval_per_train cfg = 0 \<and> 1 \<le> training_eps cfg \<longrightarrow>
        (\<exists>tr. script X cfg d = Inl (ZeroDivisionError, tr)))
   \<and> (algo cfg \<in> set algorithms \<and> evaluation_eps cfg = 0
        \<and> 1 \<le> eval_per_train cfg \<and> eval_per_train cfg \<le> training_eps cfg \<longrightarrow>
        (\<exists>tr. script X cfg d = Inl (ZeroDivisionError, tr)))"
proof (intro conjI impI)
  show "average_return X x 0 = 0"
    by (simp add: average_return_def)
qed (auto intro: eval_block_zero_eps eval_block_zero_eps_logged loop_body_zero_cadence
    script_zero_cadence script_zero_eps)

theorem zero_count_divisions_witness:
  "(\<exists>tr. eval_block (replay []) (default_config\<lparr>eval_per_train := 0, evaluation_eps := 0\<rparr>) 1
           (initial_locals (replay [])
              (default_config\<lparr>eval_per_train := 0, evaluation_eps := 0\<rparr>) False [])
         = Inl (ZeroDivisionError, tr))
   \<and> (\<exists>tr. loop_body (replay []) (default_config\<lparr>eval_per_train := 0, evaluation_eps := 0\<rparr>) 1
           (initial_locals (replay [])
              (default_config\<lparr>eval_per_train := 0, evaluation_eps := 0\<rparr>) False [])
         = Inl (ZeroDivisionError, tr))
   \<and> (\<exists>tr. script (replay []) (default_config\<lparr>eval_per_train := 0, evaluation_eps := 0\<rparr>) False
         = Inl (ZeroDivisionError, tr))
   \<and> (\<exists>tr. script (replay []) (default_config\<lparr>evaluation_eps := 0\<rparr>) False
         = Inl (ZeroDivisionError, tr))
   \<and> eval_block (replay []) (default_config\<lparr>evaluation_eps := 0\<rparr>) 1
         (initial_locals (replay []) (default_config\<lparr>evaluation_eps := 0\<rparr>) False [])
       = Inl (ZeroDivisionError,
              trace (initial_locals (replay []) (default_config\<lparr>evaluation_eps := 0\<rparr>)
                       False [])
                @ [Scalar ''Train/CollisionRate'' 0 1, Scalar ''Eval/AverageReturns'' 0 1])"
  using
    zero_count_divisions [where X = "replay []" and x = 0
      and cfg = "default_config\<lparr>eval_per_train := 0, evaluation_eps := 0\<rparr>" and e = 1
      and s = "initial_locals (replay [])
         (default_config\<lparr>eval_per_train := 0, evaluation_eps := 0\<rparr>) False []"
      and d = False]
    zero_count_divisions [where X = "replay []" and x = 0
      and cfg = "default_config\<lparr>evaluation_eps := 0\<rparr>" and e = 1
      and s = "initial_locals (replay []) (default_config\<lparr>evaluation_eps := 0\<rparr>) False []"
      and d = False]
  by (simp add: default_config_def algorithms_def initial_locals_fields)

subsection \<open>Checkpoints\<close>

text \<open>The equations that evaluate a run on concrete inputs.\<close>

lemmas run_defs =
  one_episode_config_def default_config_def loop_body_def eval_due_def py_mod_def
  train_episode_def replay_def replay_run_def initial_locals_def Let_def emit_def emit_if_def
  eval_block_def begin_eval_def py_truediv_def upto.simps eval_episode_def log_eval_def
  average_return_def print_summary_def save_model_def ckpt_path_def str_int_def str_nat.simps
  digit_char_def startup_trace_def collision_def episode_return_def step_length_def
  dir_name_def save_dir_def rule_line_def stub_str_float_def

lemma saves_startup: "saves (trace (initial_locals X cfg d ag)) = []"
  by (simp add: initial_locals_def startup_trace_def saves_append)

lemma loop_body_saves:
  assumes "loop_body X cfg e s = Inr s'"
  shows "saves (trace s') =
     saves (trace s) @
       (if eval_due cfg e = Inr True \<and> real_of_int (threshold_return cfg) \<le> eval_average_return s'
        then [ckpt_path X cfg s'] else [])"
  using assms
proof (cases rule: loop_body_cases)
  case train
  then show ?thesis
    by (simp add: train_episode_saves)
next
  case eval
  then show ?thesis
    using eval_block_saves [of X cfg e "train_episode X cfg e s" s']
    by (simp add: train_episode_saves)
qed

lemma loop_body_Inl_saves:
  assumes "loop_body X cfg e s = Inl (err, tr)"
  shows "saves tr = saves (trace s)"
proof (cases "eval_due cfg e")
  case (Inl a)
  with assms show ?thesis
    by (auto simp: loop_body_def Let_def train_episode_saves)
next
  case (Inr b)
  with assms have "eval_block X cfg e (train_episode X cfg e s) = Inl (err, tr)"
    by (cases b) (simp_all add: loop_body_def Let_def)
  then show ?thesis
    using eval_block_Inl(2) [of X cfg e "train_episode X cfg e s" err tr]
    by (simp add: train_episode_saves)
qed

text \<open>
  C6. Nothing is saved before the loop. An iteration of the episode loop that ends
  normally writes one checkpoint if it ran an evaluation block and the evaluation average it
  has just computed is at least the threshold, and writes none otherwise; an iteration that
  raises writes none. The test is inclusive.
\<close>

theorem checkpoint_iff_threshold:
  "saves (trace (initial_locals X cfg d ag)) = []
   \<and> (loop_body X cfg e s = Inr s' \<longrightarrow>
        saves (trace s') =
          saves (trace s) @
            (if eval_due cfg e = Inr True
                \<and> real_of_int (threshold_return cfg) \<le> eval_average_return s'
             then [ckpt_path X cfg s'] else []))
   \<and> (loop_body X cfg e s = Inl (err, tr) \<longrightarrow> saves tr = saves (trace s))"
  by (simp add: saves_startup loop_body_saves loop_body_Inl_saves)

theorem checkpoint_iff_threshold_witness:
  "(\<exists>s'. loop_body (replay [(1, 0, False), (2, 15, False)]) one_episode_config 1
            (initial_locals (replay [(1, 0, False), (2, 15, False)]) one_episode_config False
               [(1, 0, False), (2, 15, False)]) = Inr s'
         \<and> eval_average_return s' = 15
         \<and> saves (trace s') = [''./tests/save_model/sumo_td3_s_0_ep_1_tr_0.0_er_15.0.pt''])
   \<and> (\<exists>s'. loop_body (replay [(1, 0, False), (2, 1499 / 100, False)]) one_episode_config 1
            (initial_locals (replay [(1, 0, False), (2, 1499 / 100, False)]) one_episode_config
               False [(1, 0, False), (2, 1499 / 100, False)]) = Inr s'
         \<and> eval_average_return s' = 1499 / 100
         \<and> saves (trace s') = [])
   \<and> (\<exists>tr. loop_body (replay []) (one_episode_config\<lparr>evaluation_eps := 0\<rparr>) 1
            (initial_locals (replay []) (one_episode_config\<lparr>evaluation_eps := 0\<rparr>) False [])
          = Inl (ZeroDivisionError, tr)
         \<and> saves tr = [])"
proof (intro conjI)
  let ?X = "replay [(1, 0, False), (2, 15, False)]"
  let ?s = "initial_locals ?X one_episode_config False [(1, 0, False), (2, 15, False)]"
  have "\<exists>s'. loop_body ?X one_episode_config 1 ?s = Inr s' \<and> eval_average_return s' = 15
      \<and> ckpt_path ?X one_episode_config s' = ''./tests/save_model/sumo_td3_s_0_ep_1_tr_0.0_er_15.0.pt''"
    by (simp add: run_defs)
  then obtain s' where s': "loop_body ?X one_episode_config 1 ?s = Inr s'"
    "eval_average_return s' = 15"
    "ckpt_path ?X one_episode_config s' = ''./tests/save_model/sumo_td3_s_0_ep_1_tr_0.0_er_15.0.pt''"
    by blast
  have "saves (trace s') = [''./tests/save_model/sumo_td3_s_0_ep_1_tr_0.0_er_15.0.pt'']"
    using checkpoint_iff_threshold [of ?X one_episode_config False "[(1, 0, False), (2, 15, False)]"
        1 ?s s'] s'
    by (simp add: eval_due_def py_mod_def one_episode_config_def default_config_def)
  with s' show "\<exists>s'. loop_body ?X one_episode_config 1 ?s = Inr s'
         \<and> eval_average_return s' = 15
         \<and> saves (trace s') = [''./tests/save_model/sumo_td3_s_0_ep_1_tr_0.0_er_15.0.pt'']"
    by blast
next
  let ?X = "replay [(1, 0, False), (2, 1499 / 100, False)]"
  let ?s = "initial_locals ?X one_episode_config False [(1, 0, False), (2, 1499 / 100, False)]"
  have "\<exists>s'. loop_body ?X one_episode_config 1 ?s = Inr s' \<and> eval_average_return s' = 1499 / 100"
    by (simp add: run_defs)
  then obtain s' where s': "loop_body ?X one_episode_config 1 ?s = Inr s'"
    "eval_average_return s' = 1499 / 100"
    by blast
  have "saves (trace s') = []"
    using checkpoint_iff_threshold [of ?X one_episode_config False
        "[(1, 0, False), (2, 1499 / 100, False)]" 1 ?s s'] s'
    by (simp add: one_episode_config_def default_config_def)
  with s' show "\<exists>s'. loop_body ?X one_episode_config 1 ?s = Inr s'
         \<and> eval_average_return s' = 1499 / 100 \<and> saves (trace s') = []"
    by blast
next
  let ?cfg = "one_episode_config\<lparr>evaluation_eps := 0\<rparr>"
  let ?s = "initial_locals (replay []) ?cfg False []"
  have "\<exists>tr. loop_body (replay []) ?cfg 1 ?s = Inl (ZeroDivisionError, tr)"
    by (simp add: run_defs)
  then obtain tr where tr: "loop_body (replay []) ?cfg 1 ?s = Inl (ZeroDivisionError, tr)"
    by blast
  have "saves tr = []"
    using checkpoint_iff_threshold [of "replay []" ?cfg False "[]" 1 ?s ?s
        ZeroDivisionError tr] tr
    by simp
  with tr show "\<exists>tr. loop_body (replay []) ?cfg 1 ?s = Inl (ZeroDivisionError, tr) \<and> saves tr = []"
    by blast
qed

subsection \<open>Rounding to a double\<close>

lemma double_quantum_eq:
  assumes "2 powi e \<le> \<bar>x\<bar>" and "\<bar>x\<bar> < 2 powi (e + 1)"
  shows "double_quantum x = max e (- 1022) - 52"
proof -
  have "0 < (2::real) powi e"
    by simp
  with assms(1) have pos: "0 < \<bar>x\<bar>"
    by linarith
  have "(2::real) powr real_of_int e = 2 powi e"
    and "(2::real) powr (real_of_int e + 1) = 2 powi (e + 1)"
    using powr_real_of_int' [of 2 e] powr_real_of_int' [of 2 "e + 1"] by simp_all
  with assms have "\<lfloor>log 2 \<bar>x\<bar>\<rfloor> = e"
    using pos by (simp add: floor_log_eq_powr_iff)
  then show ?thesis
    by (simp add: double_quantum_def)
qed

text \<open>
  Some doubles, and \<open>2 ^ 53 + 1\<close>, which lies halfway between the doubles \<open>2 ^ 53\<close> and
  \<open>2 ^ 53 + 2\<close> and is rounded to the even one.
\<close>

lemma double_round_values:
  "double_round 0 = 0"
  "double_round 1 = 1"
  "double_round 2 = 2"
  "double_round (- 1) = - 1"
  "double_round 4503599627370496 = 4503599627370496"
  "double_round 9007199254740992 = 9007199254740992"
  "double_round 9007199254740993 = 9007199254740992"
proof -
  show "double_round 0 = 0"
    by (simp add: double_round_def)
  have q0: "double_quantum 1 = - 52" "double_quantum (- 1) = - 52"
    by (rule double_quantum_eq [of 0, simplified]; simp)+
  have q1: "double_quantum 2 = - 51"
    by (rule double_quantum_eq [of 1, simplified]; simp)
  have q52: "double_quantum 4503599627370496 = 0"
    by (rule double_quantum_eq [of 52, simplified]; simp)
  have q53: "double_quantum 9007199254740992 = 1" "double_quantum 9007199254740993 = 1"
    by (rule double_quantum_eq [of 53, simplified]; simp)+
  show "double_round 1 = 1" "double_round 2 = 2" "double_round (- 1) = - 1"
    "double_round 4503599627370496 = 4503599627370496"
    "double_round 9007199254740992 = 9007199254740992"
    "double_round 9007199254740993 = 9007199254740992"
    by (simp_all add: double_round_def q0 q1 q52 q53 round_half_even_def power_int_minus)
qed

lemmas double_defs = replay_double_def replay_def replay_run_def double_add_def double_div_def

lemma replay_fields:
  "agent_run (replay rs) = replay_run"
  "float_add (replay rs) = (\<lambda>x y. x + y)"
  "float_div (replay rs) = (\<lambda>x n. x / real_of_int n)"
  by (simp_all add: replay_def)

lemma replay_double_fields:
  "agent_run (replay_double rs) = replay_run"
  "float_add (replay_double rs) = double_add"
  "float_div (replay_double rs) = double_div"
  by (simp_all add: replay_double_def replay_def)

lemmas double_ops = replay_double_fields replay_run_def double_add_def double_div_def

subsection \<open>The running aggregates\<close>

text \<open>
  C8 (as stated) fails: an episode with a negative return lowers the sum of returns. Here,
  in the arithmetic of doubles, the first training episode returns \<open>-1\<close> and the sum goes
  from \<open>0\<close> to \<open>-1\<close>.
\<close>

theorem sum_of_returns_counterexample:
  "train_sum_returns
     (train_episode (replay_double [(1, - 1, False)]) default_config 1
        (initial_locals (replay_double [(1, - 1, False)]) default_config False
           [(1, - 1, False)]))
   < train_sum_returns
       (initial_locals (replay_double [(1, - 1, False)]) default_config False
          [(1, - 1, False)])"
  by (simp add: train_episode_aggregate initial_locals_def double_defs episode_return_def
      double_round_values)

text \<open>
  C8 (as amended). From one episode to the next, the step total, the episode count and the
  collision count of the training aggregate do not decrease, and neither do the episode
  count and the collision count of an evaluation block (which keeps no step total and
  leaves the training aggregate alone). The sum of returns is not among them: each episode
  adds its return, of either sign, to it with the addition of floats.
\<close>

theorem aggregates_monotone:
  "train_num_steps s \<le> train_num_steps (train_episode X cfg e s)
   \<and> train_num_episodes s \<le> train_num_episodes (train_episode X cfg e s)
   \<and> train_num_collision s \<le> train_num_collision (train_episode X cfg e s)
   \<and> train_sum_returns (train_episode X cfg e s) =
       float_add X (train_sum_returns s)
         (episode_return (fst (agent_run X (agent s) False (max_step cfg))))
   \<and> eval_num_episodes s \<le> eval_num_episodes (eval_episode X cfg e i s)
   \<and> eval_num_collision s \<le> eval_num_collision (eval_episode X cfg e i s)
   \<and> eval_sum_returns (eval_episode X cfg e i s) =
       float_add X (eval_sum_returns s)
         (episode_return (fst (agent_run X (agent s) (eval_mode s) (max_step cfg))))
   \<and> train_num_steps (eval_episode X cfg e i s) = train_num_steps s
   \<and> train_num_episodes (eval_episode X cfg e i s) = train_num_episodes s
   \<and> train_num_collision (eval_episode X cfg e i s) = train_num_collision s
   \<and> train_sum_returns (eval_episode X cfg e i s) = train_sum_returns s"
  by (simp add: train_episode_aggregate eval_episode_aggregate eval_episode_fields)

subsection \<open>The training average\<close>

lemma loop_body_train:
  assumes "loop_body X cfg e s = Inr s'"
  shows "train_results (trace s') =
           train_results (trace s) @ [fst (agent_run X (agent s) False (max_step cfg))]"
    and "train_sum_returns s' = train_sum_returns (train_episode X cfg e s)"
    and "train_num_episodes s' = train_num_episodes s + 1"
    and "train_num_steps s' = train_num_steps (train_episode X cfg e s)"
    and "train_average_return s' = train_average_return (train_episode X cfg e s)"
    and "start_time s' = start_time s"
  using assms
  by (cases rule: loop_body_cases;
      simp add: train_episode_train_results train_episode_aggregate train_episode_fields
        eval_block_train_results eval_block_train_fields)+

lemma train_results_startup: "train_results (trace (initial_locals X cfg d ag)) = []"
  by (simp add: initial_locals_def startup_trace_def train_results_def run_calls_append)

text \<open>After \<open>k\<close> iterations the training aggregate sums the \<open>k\<close> training results.\<close>

lemma train_invariant:
  assumes "episode_loop X cfg [1 .. k] (initial_locals X cfg d ag) = Inr s" and "0 \<le> k"
  shows "train_num_episodes s = k
     \<and> length (train_results (trace s)) = nat k
     \<and> train_sum_returns s = float_sum X (train_results (trace s))
     \<and> train_num_steps s = int (sum_list (map step_length (train_results (trace s))))"
proof (rule episode_loop_induct [OF assms, where P = "\<lambda>k s. train_num_episodes s = k
     \<and> length (train_results (trace s)) = nat k
     \<and> train_sum_returns s = float_sum X (train_results (trace s))
     \<and> train_num_steps s = int (sum_list (map step_length (train_results (trace s))))"])
  show "train_num_episodes (initial_locals X cfg d ag) = 0
     \<and> length (train_results (trace (initial_locals X cfg d ag))) = nat 0
     \<and> train_sum_returns (initial_locals X cfg d ag) =
         float_sum X (train_results (trace (initial_locals X cfg d ag)))
     \<and> train_num_steps (initial_locals X cfg d ag) =
         int (sum_list (map step_length (train_results (trace (initial_locals X cfg d ag)))))"
    by (simp add: train_results_startup float_sum_def) (simp add: initial_locals_def)
next
  fix e t t'
  assume e: "1 \<le> e"
    and inv: "train_num_episodes t = e - 1
     \<and> length (train_results (trace t)) = nat (e - 1)
     \<and> train_sum_returns t = float_sum X (train_results (trace t))
     \<and> train_num_steps t = int (sum_list (map step_length (train_results (trace t))))"
    and body: "loop_body X cfg e t = Inr t'"
  have "nat e = Suc (nat (e - 1))"
    using e by simp
  with inv show "train_num_episodes t' = e
     \<and> length (train_results (trace t')) = nat e
     \<and> train_sum_returns t' = float_sum X (train_results (trace t'))
     \<and> train_num_steps t' = int (sum_list (map step_length (train_results (trace t'))))"
    by (simp add: loop_body_train [OF body] train_episode_aggregate float_sum_def)
qed

lemma float_mean_average:
  "0 < n \<Longrightarrow> length rs = nat n \<Longrightarrow>
     average_return X (float_sum X rs) n = float_mean X rs"
  by (simp add: average_return_def float_mean_def)

lemma train_episode_average_scalars:
  "scalars ''Train/AverageReturns'' (trace (train_episode X cfg e s)) =
     scalars ''Train/AverageReturns'' (trace s) @
       (if tensorboard cfg then [(e, train_average_return (train_episode X cfg e s))] else [])"
  by (simp add: train_episode_def step_defs scalars_append split: prod.split)

text \<open>
  C3 (as stated) fails: the training average is a quotient of a sum of doubles, and both
  round. With the returns \<open>2 ^ 53\<close> and \<open>1\<close> the sum after two episodes is \<open>2 ^ 53\<close> (the
  second addition is absorbed), the training average is \<open>2 ^ 52\<close>, and the arithmetic mean
  of the two returns is \<open>2 ^ 52 + 1 / 2\<close>.
\<close>

theorem training_average_counterexample:
  "episode_loop (replay_double [(3, 9007199254740992, False), (4, 1, False)]) default_config
      [1 .. 2 - 1]
      (initial_locals (replay_double [(3, 9007199254740992, False), (4, 1, False)])
         default_config False [(3, 9007199254740992, False), (4, 1, False)])
    = Inr (train_episode (replay_double [(3, 9007199254740992, False), (4, 1, False)])
        default_config 1
        (initial_locals (replay_double [(3, 9007199254740992, False), (4, 1, False)])
           default_config False [(3, 9007199254740992, False), (4, 1, False)]))
   \<and> train_results (trace
        (train_episode (replay_double [(3, 9007199254740992, False), (4, 1, False)])
          default_config 2
          (train_episode (replay_double [(3, 9007199254740992, False), (4, 1, False)])
            default_config 1
            (initial_locals (replay_double [(3, 9007199254740992, False), (4, 1, False)])
               default_config False [(3, 9007199254740992, False), (4, 1, False)]))))
      = [(3, 9007199254740992, False), (4, 1, False)]
   \<and> train_average_return
        (train_episode (replay_double [(3, 9007199254740992, False), (4, 1, False)])
          default_config 2
          (train_episode (replay_double [(3, 9007199254740992, False), (4, 1, False)])
            default_config 1
            (initial_locals (replay_double [(3, 9007199254740992, False), (4, 1, False)])
               default_config False [(3, 9007199254740992, False), (4, 1, False)])))
      = 4503599627370496
   \<and> mean_return [(3, 9007199254740992, False), (4, 1, False)] = 9007199254740993 / 2
   \<and> train_average_return
        (train_episode (replay_double [(3, 9007199254740992, False), (4, 1, False)])
          default_config 2
          (train_episode (replay_double [(3, 9007199254740992, False), (4, 1, False)])
            default_config 1
            (initial_locals (replay_double [(3, 9007199254740992, False), (4, 1, False)])
               default_config False [(3, 9007199254740992, False), (4, 1, False)])))
      \<noteq> mean_return [(3, 9007199254740992, False), (4, 1, False)]"
proof -
  let ?X = "replay_double [(3, 9007199254740992, False), (4, 1, False)]"
  let ?s0 = "initial_locals ?X default_config False [(3, 9007199254740992, False), (4, 1, False)]"
  let ?s1 = "train_episode ?X default_config 1 ?s0"
  let ?s2 = "train_episode ?X default_config 2 ?s1"
  have run: "episode_loop ?X default_config [1 .. 2 - 1] ?s0 = Inr ?s1"
    by (simp add: upto.simps loop_body_def eval_due_def py_mod_def default_config_def Let_def)
  have results: "train_results (trace ?s2) = [(3, 9007199254740992, False), (4, 1, False)]"
    by (simp add: train_episode_train_results train_episode_fields train_results_startup
        initial_locals_fields double_ops)
  have first: "train_sum_returns ?s1 = 9007199254740992" "train_num_episodes ?s1 = 1"
    by (simp_all add: train_episode_aggregate initial_locals_fields double_ops
        episode_return_def double_round_values)
  have second: "train_sum_returns ?s2 = 9007199254740992" "train_num_episodes ?s2 = 2"
    by (simp_all add: train_episode_aggregate first train_episode_fields initial_locals_fields
        double_ops episode_return_def double_round_values)
  have avg: "train_average_return ?s2 = 4503599627370496"
    unfolding train_episode_aggregate(5) second
    by (simp add: average_return_def double_ops double_round_values)
  have mean: "mean_return [(3, 9007199254740992, False), (4, 1, False)] = 9007199254740993 / 2"
    by (simp add: mean_return_def episode_return_def)
  have "train_average_return ?s2 \<noteq> mean_return [(3, 9007199254740992, False), (4, 1, False)]"
    unfolding avg mean by simp
  with run results avg mean show ?thesis
    by simp
qed

text \<open>
  C3 (as amended). Let the loop have run \<open>k - 1\<close> iterations from the start. After the
  training episode of iteration \<open>k\<close>, exactly \<open>k\<close> training episodes have been run, and the
  training average is the sum of their returns, added in order from \<^verbatim>\<open>0.\<close> with the
  addition of floats, divided by \<open>k\<close> with the division of floats; this is the value written
  under \<^verbatim>\<open>Train/AverageReturns\<close> at step \<open>k\<close>, and an evaluation block in the same
  iteration does not change it.
\<close>

theorem training_average_is_float_mean:
  assumes "1 \<le> k"
    and "episode_loop X cfg [1 .. k - 1] (initial_locals X cfg d ag) = Inr s"
  shows "length (train_results (trace (train_episode X cfg k s))) = nat k
    \<and> train_average_return (train_episode X cfg k s) =
        float_mean X (train_results (trace (train_episode X cfg k s)))
    \<and> scalars ''Train/AverageReturns'' (trace (train_episode X cfg k s)) =
        scalars ''Train/AverageReturns'' (trace s) @
          (if tensorboard cfg
           then [(k, float_mean X (train_results (trace (train_episode X cfg k s))))] else [])
    \<and> (\<forall>s'. loop_body X cfg k s = Inr s' \<longrightarrow>
          train_results (trace s') = train_results (trace (train_episode X cfg k s))
          \<and> train_average_return s' = float_mean X (train_results (trace s')))"
proof -
  let ?t = "train_episode X cfg k s"
  from train_invariant [OF assms(2)] assms(1)
  have inv: "train_num_episodes s = k - 1" "length (train_results (trace s)) = nat (k - 1)"
    "train_sum_returns s = float_sum X (train_results (trace s))"
    by simp_all
  have len: "length (train_results (trace ?t)) = nat k"
    using assms(1) inv(2) by (simp add: train_episode_train_results)
  have sum: "train_sum_returns ?t = float_sum X (train_results (trace ?t))"
    by (simp add: train_episode_aggregate train_episode_train_results inv(3) float_sum_def)
  have num: "train_num_episodes ?t = k"
    by (simp add: train_episode_aggregate inv(1))
  have avg: "train_average_return ?t = float_mean X (train_results (trace ?t))"
    using float_mean_average [of k "train_results (trace ?t)" X] assms(1) len
    by (simp add: train_episode_aggregate(5) sum [symmetric] num)
  have after: "train_results (trace s') = train_results (trace ?t)
      \<and> train_average_return s' = float_mean X (train_results (trace s'))"
    if "loop_body X cfg k s = Inr s'" for s'
    using loop_body_train [OF that] avg by (simp add: train_episode_train_results)
  show ?thesis
    using len avg after by (simp add: train_episode_average_scalars)
qed

theorem training_average_is_float_mean_witness:
  "episode_loop (replay [(3, 2, False), (4, 4, False)]) default_config [1 .. 2 - 1]
      (initial_locals (replay [(3, 2, False), (4, 4, False)]) default_config False
         [(3, 2, False), (4, 4, False)])
    = Inr (train_episode (replay [(3, 2, False), (4, 4, False)]) default_config 1
        (initial_locals (replay [(3, 2, False), (4, 4, False)]) default_config False
           [(3, 2, False), (4, 4, False)]))
   \<and> train_results (trace
        (train_episode (replay [(3, 2, False), (4, 4, False)]) default_config 2
          (train_episode (replay [(3, 2, False), (4, 4, False)]) default_config 1
            (initial_locals (replay [(3, 2, False), (4, 4, False)]) default_config False
               [(3, 2, False), (4, 4, False)]))))
      = [(3, 2, False), (4, 4, False)]
   \<and> train_average_return
        (train_episode (replay [(3, 2, False), (4, 4, False)]) default_config 2
          (train_episode (replay [(3, 2, False), (4, 4, False)]) default_config 1
            (initial_locals (replay [(3, 2, False), (4, 4, False)]) default_config False
               [(3, 2, False), (4, 4, False)])))
      = 3"
proof -
  let ?X = "replay [(3, 2, False), (4, 4, False)]"
  let ?s0 = "initial_locals ?X default_config False [(3, 2, False), (4, 4, False)]"
  let ?s1 = "train_episode ?X default_config 1 ?s0"
  let ?s2 = "train_episode ?X default_config 2 ?s1"
  have run: "episode_loop ?X default_config [1 .. 2 - 1] ?s0 = Inr ?s1"
    by (simp add: upto.simps loop_body_def eval_due_def py_mod_def default_config_def Let_def)
  have results: "train_results (trace ?s2) = [(3, 2, False), (4, 4, False)]"
    by (simp add: train_episode_train_results train_episode_fields train_results_startup
        initial_locals_fields replay_def replay_run_def)
  have "train_average_return ?s2 = float_mean ?X (train_results (trace ?s2))"
    using training_average_is_float_mean [where k = 2 and X = ?X and cfg = default_config
        and d = False and ag = "[(3, 2, False), (4, 4, False)]" and s = ?s1] run
    by simp
  then have "train_average_return ?s2 = 3"
    by (simp add: results float_mean_def float_sum_def replay_fields episode_return_def)
  with run results show ?thesis
    by simp
qed

subsection \<open>The evaluation average\<close>

lemma begin_eval_resets:
  assumes "begin_eval cfg e s = Inr s1"
  shows "eval_sum_returns s1 = 0 \<and> eval_num_episodes s1 = 0 \<and> eval_num_collision s1 = 0
     \<and> eval_mode s1"
  using assms by (auto simp: begin_eval_Inr_iff)

lemma eval_block_mean:
  assumes "0 < evaluation_eps cfg" and "eval_block X cfg e s = Inr s'"
  shows "\<exists>rs. length rs = nat (evaluation_eps cfg)
     \<and> run_calls (trace s') = run_calls (trace s) @ map (Pair True) rs
     \<and> eval_sum_returns s' = float_sum X rs
     \<and> eval_num_episodes s' = evaluation_eps cfg
     \<and> eval_num_collision s' = int (collisions rs)
     \<and> eval_average_return s' = float_mean X rs"
proof -
  from eval_block_runs [OF assms(2)] obtain rs where rs:
    "length rs = nat (evaluation_eps cfg)"
    "run_calls (trace s') = run_calls (trace s) @ map (Pair True) rs"
    "eval_sum_returns s' = float_sum X rs"
    "eval_num_episodes s' = int (length rs)"
    "eval_num_collision s' = int (collisions rs)"
    "eval_average_return s' = average_return X (eval_sum_returns s') (eval_num_episodes s')"
    by blast
  have n: "eval_num_episodes s' = evaluation_eps cfg"
    using rs(1,4) assms(1) by simp
  have "eval_average_return s' = float_mean X rs"
    using float_mean_average [OF assms(1) rs(1), of X] rs(3,6) n by simp
  with rs n show ?thesis
    by blast
qed

text \<open>
  C4 (as stated) fails: the average of a block is a quotient of a sum of doubles, and both
  round. In a block of two evaluation episodes with the returns \<open>2 ^ 53\<close> and \<open>1\<close> the two
  calls are made with the evaluation flag set, the block average is \<open>2 ^ 52\<close> (the second
  addition is absorbed), and the arithmetic mean of the two returns is \<open>2 ^ 52 + 1 / 2\<close>.
\<close>

theorem evaluation_average_counterexample:
  "map_sum fst (run_calls \<circ> trace)
     (eval_block (replay_double [(3, 9007199254740992, False), (4, 1, True)])
        (one_episode_config\<lparr>evaluation_eps := 2\<rparr>) 1
        (initial_locals (replay_double [(3, 9007199254740992, False), (4, 1, True)])
           (one_episode_config\<lparr>evaluation_eps := 2\<rparr>) False
           [(3, 9007199254740992, False), (4, 1, True)]))
     = Inr [(True, (3, 9007199254740992, False)), (True, (4, 1, True))]
   \<and> map_sum fst eval_average_return
       (eval_block (replay_double [(3, 9007199254740992, False), (4, 1, True)])
          (one_episode_config\<lparr>evaluation_eps := 2\<rparr>) 1
          (initial_locals (replay_double [(3, 9007199254740992, False), (4, 1, True)])
             (one_episode_config\<lparr>evaluation_eps := 2\<rparr>) False
             [(3, 9007199254740992, False), (4, 1, True)]))
     = Inr 4503599627370496
   \<and> mean_return [(3, 9007199254740992, False), (4, 1, True)] = 9007199254740993 / 2
   \<and> map_sum fst eval_average_return
       (eval_block (replay_double [(3, 9007199254740992, False), (4, 1, True)])
          (one_episode_config\<lparr>evaluation_eps := 2\<rparr>) 1
          (initial_locals (replay_double [(3, 9007199254740992, False), (4, 1, True)])
             (one_episode_config\<lparr>evaluation_eps := 2\<rparr>) False
             [(3, 9007199254740992, False), (4, 1, True)]))
     \<noteq> Inr (mean_return [(3, 9007199254740992, False), (4, 1, True)])"
proof (intro conjI)
  let ?X = "replay_double [(3, 9007199254740992, False), (4, 1, True)]"
  let ?cfg = "one_episode_config\<lparr>evaluation_eps := 2\<rparr>"
  let ?s = "initial_locals ?X ?cfg False [(3, 9007199254740992, False), (4, 1, True)]"
  have block: "\<exists>s'. eval_block ?X ?cfg 1 ?s = Inr s'
      \<and> run_calls (trace s') = [(True, (3, 9007199254740992, False)), (True, (4, 1, True))]
      \<and> eval_average_return s' = 4503599627370496"
    by (simp add: run_defs double_defs double_round_values)
  then show "map_sum fst (run_calls \<circ> trace) (eval_block ?X ?cfg 1 ?s)
      = Inr [(True, (3, 9007199254740992, False)), (True, (4, 1, True))]"
    by auto
  from block show "map_sum fst eval_average_return (eval_block ?X ?cfg 1 ?s)
      = Inr 4503599627370496"
    by auto
  show mean: "mean_return [(3, 9007199254740992, False), (4, 1, True)] = 9007199254740993 / 2"
    by (simp add: mean_return_def episode_return_def)
  from block show "map_sum fst eval_average_return (eval_block ?X ?cfg 1 ?s)
      \<noteq> Inr (mean_return [(3, 9007199254740992, False), (4, 1, True)])"
    unfolding mean by auto
qed

text \<open>
  C4 (as amended). Whatever the locals were before, the reset at the head of an evaluation
  block leaves the evaluation sum, episode count and collision count at zero and the
  evaluation flag set. For \<^verbatim>\<open>evaluation_eps > 0\<close> the block runs to its end (unless the
  collision rate of line 138 divides by a zero cadence), and it then has made exactly
  \<^verbatim>\<open>evaluation_eps\<close> calls of \<^verbatim>\<open>agent.run\<close>, all with the flag set; its count and
  collision count are those of these episodes, its sum is the sum of their returns, added
  in order from \<^verbatim>\<open>0.\<close> with the addition of floats, and its average is that sum divided by
  \<^verbatim>\<open>evaluation_eps\<close> with the division of floats.
\<close>

theorem evaluation_block_float_mean:
  assumes "0 < evaluation_eps cfg"
  shows "(\<forall>s1. begin_eval cfg e s = Inr s1 \<longrightarrow>
            eval_sum_returns s1 = 0 \<and> eval_num_episodes s1 = 0 \<and> eval_num_collision s1 = 0
            \<and> eval_mode s1)
    \<and> ((tensorboard cfg \<longrightarrow> eval_per_train cfg \<noteq> 0) \<longrightarrow>
          (\<exists>s'. eval_block X cfg e s = Inr s'))
    \<and> (\<forall>s'. eval_block X cfg e s = Inr s' \<longrightarrow>
          (\<exists>rs. length rs = nat (evaluation_eps cfg)
             \<and> run_calls (trace s') = run_calls (trace s) @ map (Pair True) rs
             \<and> eval_sum_returns s' = float_sum X rs
             \<and> eval_num_episodes s' = evaluation_eps cfg
             \<and> eval_num_collision s' = int (collisions rs)
             \<and> eval_average_return s' = float_mean X rs))"
proof (intro conjI allI impI)
  fix s1 assume "begin_eval cfg e s = Inr s1"
  from begin_eval_resets [OF this]
  show "eval_sum_returns s1 = 0" "eval_num_episodes s1 = 0" "eval_num_collision s1 = 0"
    "eval_mode s1"
    by simp_all
next
  assume "tensorboard cfg \<longrightarrow> eval_per_train cfg \<noteq> 0"
  then show "\<exists>s'. eval_block X cfg e s = Inr s'"
    using assms eval_block_total [of cfg X e s] by simp
next
  fix s' assume "eval_block X cfg e s = Inr s'"
  from eval_block_mean [OF assms this]
  show "\<exists>rs. length rs = nat (evaluation_eps cfg)
             \<and> run_calls (trace s') = run_calls (trace s) @ map (Pair True) rs
             \<and> eval_sum_returns s' = float_sum X rs
             \<and> eval_num_episodes s' = evaluation_eps cfg
             \<and> eval_num_collision s' = int (collisions rs)
             \<and> eval_average_return s' = float_mean X rs" .
qed

theorem evaluation_block_float_mean_witness:
  "0 < evaluation_eps (one_episode_config\<lparr>evaluation_eps := 2\<rparr>)
   \<and> (\<exists>s'. eval_block (replay [(3, 10, False), (4, 20, True)])
            (one_episode_config\<lparr>evaluation_eps := 2\<rparr>) 1
            (initial_locals (replay [(3, 10, False), (4, 20, True)])
               (one_episode_config\<lparr>evaluation_eps := 2\<rparr>) False
               [(3, 10, False), (4, 20, True)]) = Inr s'
         \<and> run_calls (trace s') = [(True, (3, 10, False)), (True, (4, 20, True))]
         \<and> eval_num_episodes s' = 2
         \<and> eval_num_collision s' = 1
         \<and> eval_average_return s' = 15)"
proof -
  let ?cfg = "one_episode_config\<lparr>evaluation_eps := 2\<rparr>"
  let ?X = "replay [(3, 10, False), (4, 20, True)]"
  let ?s = "initial_locals ?X ?cfg False [(3, 10, False), (4, 20, True)]"
  have pos: "0 < evaluation_eps ?cfg"
    by simp
  note inst = evaluation_block_float_mean [OF pos, where e = 1 and s = ?s and X = ?X]
  have "\<exists>s'. eval_block ?X ?cfg 1 ?s = Inr s'
      \<and> run_calls (trace s') = [(True, (3, 10, False)), (True, (4, 20, True))]"
    by (simp add: run_defs)
  then obtain s' where s': "eval_block ?X ?cfg 1 ?s = Inr s'"
    and calls: "run_calls (trace s') = [(True, (3, 10, False)), (True, (4, 20, True))]"
    by blast
  from inst s' obtain rs where rs:
    "run_calls (trace s') = run_calls (trace ?s) @ map (Pair True) rs"
    "eval_num_episodes s' = evaluation_eps ?cfg"
    "eval_num_collision s' = int (collisions rs)"
    "eval_average_return s' = float_mean ?X rs"
    by blast
  have "run_calls (trace ?s) = []"
    by (simp add: initial_locals_def startup_trace_def run_calls_append)
  with rs(1) calls have "rs = [(3, 10, False), (4, 20, True)]"
    by (auto simp: map_eq_Cons_conv)
  with rs have "eval_num_episodes s' = 2" "eval_num_collision s' = 1" "eval_average_return s' = 15"
    by (simp_all add: collisions_def collision_def float_mean_def float_sum_def replay_fields
        episode_return_def)
  with pos s' calls show ?thesis
    by blast
qed

subsection \<open>The path of a checkpoint\<close>

lemma train_episode_mkdir_fields:
  "mkdirs (trace (train_episode X cfg e s)) = mkdirs (trace s)"
  "save_dir_exists (train_episode X cfg e s) = save_dir_exists s"
  by (simp_all add: train_episode_mkdirs train_episode_fields)

lemma loop_body_saved:
  assumes "loop_body X cfg e s = Inr s'" and "saves (trace s') \<noteq> saves (trace s)"
  shows "saves (trace s') = saves (trace s) @ [ckpt_path X cfg s']"
    and "mkdirs (trace s') = mkdirs (trace s) @ (if save_dir_exists s then [] else [save_dir])"
    and "save_dir_exists s'"
proof -
  from loop_body_saves [OF assms(1)] assms(2)
  have due: "eval_due cfg e = Inr True"
    and thr: "real_of_int (threshold_return cfg) \<le> eval_average_return s'"
    by (auto split: if_splits)
  with loop_body_saves [OF assms(1)]
  show "saves (trace s') = saves (trace s) @ [ckpt_path X cfg s']"
    by simp
  from assms(1) due have block: "eval_block X cfg e (train_episode X cfg e s) = Inr s'"
    by (cases rule: loop_body_cases) simp_all
  from eval_block_mkdirs [OF block] thr
  show "mkdirs (trace s') = mkdirs (trace s) @ (if save_dir_exists s then [] else [save_dir])"
    and "save_dir_exists s'"
    by (simp_all add: train_episode_mkdir_fields)
qed

text \<open>
  C7. Let the loop have run \<open>e - 1\<close> iterations from the start, and let iteration \<open>e\<close>
  write a checkpoint. Then it writes exactly one, at the path
  \<^verbatim>\<open>./tests/save_model/{env}_{algo}_s_{seed}_ep_{e}_tr_{..}_er_{..}.pt\<close>, where \<open>e\<close> is the
  number of training episodes run so far and the two numbers are \<^verbatim>\<open>str(round(., 2))\<close> of the
  training and the evaluation average; the directory \<^verbatim>\<open>./tests/save_model\<close> is created
  first if it did not exist, and exists afterwards.
\<close>

theorem checkpoint_path_form:
  assumes "1 \<le> e"
    and "episode_loop X cfg [1 .. e - 1] (initial_locals X cfg d ag) = Inr s"
    and "loop_body X cfg e s = Inr s'"
    and "saves (trace s') \<noteq> saves (trace s)"
  shows "saves (trace s') =
      saves (trace s) @
        [''./tests/save_model/'' @ env cfg @ ''_'' @ algo cfg
           @ ''_s_'' @ str_int (seed cfg)
           @ ''_ep_'' @ str_int e
           @ ''_tr_'' @ str_float X (round2 X (train_average_return s'))
           @ ''_er_'' @ str_float X (round2 X (eval_average_return s')) @ ''.pt'']
    \<and> train_num_episodes s' = e
    \<and> mkdirs (trace s') =
        mkdirs (trace s) @ (if save_dir_exists s then [] else [''./tests/save_model''])
    \<and> save_dir_exists s'"
proof -
  from train_invariant [OF assms(2)] assms(1) have "train_num_episodes s = e - 1"
    by simp
  then have n: "train_num_episodes s' = e"
    using loop_body_train(3) [OF assms(3)] by simp
  from loop_body_saved [OF assms(3,4)] n show ?thesis
    by (simp add: ckpt_path_def save_dir_def)
qed

theorem checkpoint_path_form_witness:
  "episode_loop (replay [(1, 0, False), (2, 15, False)]) one_episode_config [1 .. 1 - 1]
      (initial_locals (replay [(1, 0, False), (2, 15, False)]) one_episode_config False
         [(1, 0, False), (2, 15, False)])
     = Inr (initial_locals (replay [(1, 0, False), (2, 15, False)]) one_episode_config False
         [(1, 0, False), (2, 15, False)])
   \<and> (\<exists>s'. loop_body (replay [(1, 0, False), (2, 15, False)]) one_episode_config 1
            (initial_locals (replay [(1, 0, False), (2, 15, False)]) one_episode_config False
               [(1, 0, False), (2, 15, False)]) = Inr s'
         \<and> saves (trace s') = [''./tests/save_model/sumo_td3_s_0_ep_1_tr_0.0_er_15.0.pt'']
         \<and> mkdirs (trace s') = [''./tests/save_model'']
         \<and> save_dir_exists s')"
proof -
  let ?X = "replay [(1, 0, False), (2, 15, False)]"
  let ?s = "initial_locals ?X one_episode_config False [(1, 0, False), (2, 15, False)]"
  have run: "episode_loop ?X one_episode_config [1 .. 1 - 1] ?s = Inr ?s"
    by simp
  have "\<exists>s'. loop_body ?X one_episode_config 1 ?s = Inr s'
      \<and> saves (trace s') \<noteq> [] \<and> train_average_return s' = 0 \<and> eval_average_return s' = 15"
    by (simp add: run_defs)
  then obtain s' where s': "loop_body ?X one_episode_config 1 ?s = Inr s'"
    and saved: "saves (trace s') \<noteq> []"
    and avg: "train_average_return s' = 0" "eval_average_return s' = 15"
    by blast
  have start: "saves (trace ?s) = []" "mkdirs (trace ?s) = []" "\<not> save_dir_exists ?s"
    by (simp_all add: initial_locals_def startup_trace_def saves_append mkdirs_append)
  from saved start have changed: "saves (trace s') \<noteq> saves (trace ?s)"
    by simp
  from checkpoint_path_form [OF _ run s' changed] start avg
  have "saves (trace s') = [''./tests/save_model/sumo_td3_s_0_ep_1_tr_0.0_er_15.0.pt'']"
    and "mkdirs (trace s') = [''./tests/save_model'']" and "save_dir_exists s'"
    by (simp_all add: one_episode_config_def default_config_def replay_def stub_str_float_def
        str_int_def str_nat.simps digit_char_def)
  with run s' show ?thesis
    by blast
qed

subsection \<open>Counting evaluation blocks\<close>

lemma div_pred_not_due:
  fixes C e :: int
  assumes "1 \<le> C" and "e mod C \<noteq> 0"
  shows "(e - 1) div C = e div C"
proof (rule int_div_pos_eq [of _ _ _ "e mod C - 1"])
  show "e - 1 = C * (e div C) + (e mod C - 1)"
    by (simp add: algebra_simps)
  have "0 \<le> e mod C" "e mod C < C"
    using assms(1) by simp_all
  with assms(2) show "0 \<le> e mod C - 1" "e mod C - 1 < C"
    by simp_all
qed

lemma div_pred_due:
  fixes C e :: int
  assumes "1 \<le> C" and "e mod C = 0"
  shows "(e - 1) div C = e div C - 1" and "e div C * C = e"
proof -
  have eq: "C * (e div C) = e"
    using assms(2) by (simp add: mod_0_imp_dvd)
  show "e div C * C = e"
    using eq by (simp add: mult.commute)
  show "(e - 1) div C = e div C - 1"
  proof (rule int_div_pos_eq [of _ _ _ "C - 1"])
    show "e - 1 = C * (e div C - 1) + (C - 1)"
      using eq by (simp add: algebra_simps)
    show "0 \<le> C - 1" "C - 1 < C"
      using assms(1) by simp_all
  qed
qed


lemma block_positions_startup: "block_positions n (trace (initial_locals X cfg d ag)) = []"
  by (simp add: initial_locals_def startup_trace_def block_positions_append)

lemma loop_body_block_positions:
  assumes "loop_body X cfg e s = Inr s'"
  shows "block_positions 0 (trace s') =
     block_positions 0 (trace s) @
       (if eval_due cfg e = Inr True then [Suc (length (train_results (trace s)))] else [])"
  using assms
proof (cases rule: loop_body_cases)
  case train
  then show ?thesis
    by (simp add: train_episode_block_positions)
next
  case eval
  then show ?thesis
    using eval_block_block_positions [of X cfg e "train_episode X cfg e s" s' 0]
    by (simp add: train_episode_block_positions train_episode_train_results)
qed

text \<open>After \<open>k\<close> iterations a block has been run after every multiple of the cadence up to \<open>k\<close>.\<close>

lemma block_invariant:
  assumes "episode_loop X cfg [1 .. k] (initial_locals X cfg d ag) = Inr s" and "0 \<le> k"
    and C: "1 \<le> eval_per_train cfg"
  shows "block_positions 0 (trace s) =
     map (\<lambda>j. nat (j * eval_per_train cfg)) [1 .. k div eval_per_train cfg]"
proof (rule episode_loop_induct [OF assms(1,2), where P = "\<lambda>k s. block_positions 0 (trace s) =
     map (\<lambda>j. nat (j * eval_per_train cfg)) [1 .. k div eval_per_train cfg]"])
  show "block_positions 0 (trace (initial_locals X cfg d ag)) =
     map (\<lambda>j. nat (j * eval_per_train cfg)) [1 .. 0 div eval_per_train cfg]"
    by (simp add: block_positions_startup)
next
  fix e t t'
  let ?C = "eval_per_train cfg"
  assume e: "1 \<le> e" "e \<le> k"
    and inv: "block_positions 0 (trace t) = map (\<lambda>j. nat (j * ?C)) [1 .. (e - 1) div ?C]"
    and run: "episode_loop X cfg [1 .. e - 1] (initial_locals X cfg d ag) = Inr t"
    and body: "loop_body X cfg e t = Inr t'"
  from train_invariant [OF run] e(1) have len: "length (train_results (trace t)) = nat (e - 1)"
    by simp
  have due: "eval_due cfg e = Inr (e mod ?C = 0)"
    using e(1) C by (simp add: eval_due_Inr_iff)
  have step: "block_positions 0 (trace t') =
      block_positions 0 (trace t) @ (if e mod ?C = 0 then [nat e] else [])"
  proof -
    have "Suc (nat (e - 1)) = nat e"
      using e(1) by simp
    then show ?thesis
      unfolding loop_body_block_positions [OF body] due len by simp
  qed
  show "block_positions 0 (trace t') = map (\<lambda>j. nat (j * ?C)) [1 .. e div ?C]"
  proof (cases "e mod ?C = 0")
    case False
    have "block_positions 0 (trace t') = block_positions 0 (trace t)"
      unfolding step using False by simp
    also have "\<dots> = map (\<lambda>j. nat (j * ?C)) [1 .. e div ?C]"
      unfolding inv div_pred_not_due [OF C False] ..
    finally show ?thesis .
  next
    case True
    have q: "(e - 1) div ?C = e div ?C - 1" "e div ?C * ?C = e"
      using div_pred_due [OF C True] by blast+
    have pos: "1 \<le> e div ?C"
    proof (rule ccontr)
      assume "\<not> 1 \<le> e div ?C"
      then have "e div ?C \<le> 0" by simp
      then have "e div ?C * ?C \<le> 0"
        using C by (simp add: mult_nonpos_nonneg)
      with q(2) e(1) show False by simp
    qed
    have up: "[1 .. e div ?C] = [1 .. e div ?C - 1] @ [e div ?C]"
      using pos by (rule upto_rec2)
    have "block_positions 0 (trace t') = block_positions 0 (trace t) @ [nat e]"
      unfolding step using True by simp
    also have "\<dots> = map (\<lambda>j. nat (j * ?C)) [1 .. e div ?C - 1] @ [nat (e div ?C * ?C)]"
      unfolding inv q ..
    also have "\<dots> = map (\<lambda>j. nat (j * ?C)) [1 .. e div ?C]"
      unfolding up by simp
    finally show ?thesis .
  qed
qed

lemma eval_results_startup: "eval_results (trace (initial_locals X cfg d ag)) = []"
  by (simp add: initial_locals_def startup_trace_def eval_results_def run_calls_append)

lemma loop_body_eval_results:
  assumes "loop_body X cfg e s = Inr s'"
  shows "length (eval_results (trace s')) =
     length (eval_results (trace s))
       + (if eval_due cfg e = Inr True then nat (evaluation_eps cfg) else 0)"
  using assms
proof (cases rule: loop_body_cases)
  case train
  then show ?thesis
    by (simp add: train_episode_eval_results)
next
  case eval
  from eval_block_runs [OF eval(2)] obtain rs where
    "length rs = nat (evaluation_eps cfg)"
    "run_calls (trace s') = run_calls (trace (train_episode X cfg e s)) @ map (Pair True) rs"
    by blast
  then have "length (eval_results (trace s')) =
      length (eval_results (trace (train_episode X cfg e s))) + nat (evaluation_eps cfg)"
    by (simp add: eval_results_def filter_map comp_def)
  with eval(1) show ?thesis
    by (simp add: train_episode_eval_results)
qed

lemma eval_count_invariant:
  assumes "episode_loop X cfg [1 .. k] (initial_locals X cfg d ag) = Inr s" and "0 \<le> k"
    and C: "1 \<le> eval_per_train cfg"
  shows "length (eval_results (trace s)) =
     nat (k div eval_per_train cfg) * nat (evaluation_eps cfg)"
proof (rule episode_loop_induct [OF assms(1,2), where P = "\<lambda>k s.
     length (eval_results (trace s)) =
       nat (k div eval_per_train cfg) * nat (evaluation_eps cfg)"])
  show "length (eval_results (trace (initial_locals X cfg d ag))) =
     nat (0 div eval_per_train cfg) * nat (evaluation_eps cfg)"
    by (simp add: eval_results_startup)
next
  fix e t t'
  let ?C = "eval_per_train cfg"
  assume e: "1 \<le> e" "e \<le> k"
    and inv: "length (eval_results (trace t)) = nat ((e - 1) div ?C) * nat (evaluation_eps cfg)"
    and body: "loop_body X cfg e t = Inr t'"
  have due: "eval_due cfg e = Inr (e mod ?C = 0)"
    using e(1) C by (simp add: eval_due_Inr_iff)
  show "length (eval_results (trace t')) = nat (e div ?C) * nat (evaluation_eps cfg)"
  proof (cases "e mod ?C = 0")
    case False
    show ?thesis
      unfolding loop_body_eval_results [OF body] due inv div_pred_not_due [OF C False]
      using False by simp
  next
    case True
    have q: "(e - 1) div ?C = e div ?C - 1" "e div ?C * ?C = e"
      using div_pred_due [OF C True] by blast+
    have pos: "1 \<le> e div ?C"
    proof (rule ccontr)
      assume "\<not> 1 \<le> e div ?C"
      then have "e div ?C \<le> 0" by simp
      then have "e div ?C * ?C \<le> 0"
        using C by (simp add: mult_nonpos_nonneg)
      with q(2) e(1) show False by simp
    qed
    then have "nat (e div ?C) = Suc (nat (e div ?C - 1))"
      by simp
    then show ?thesis
      unfolding loop_body_eval_results [OF body] due inv q(1)
      using True by simp
  qed
qed

lemma script_Inr:
  assumes "script X cfg d = Inr s"
  obtains ag where "episode_loop X cfg [1 .. training_eps cfg] (initial_locals X cfg d ag) = Inr s"
  using assms
  by (auto simp: script_def main_def split: sum.splits)

lemma script_total:
  assumes "algo cfg \<in> set algorithms" and "eval_per_train cfg \<noteq> 0"
    and "evaluation_eps cfg \<noteq> 0"
  shows "\<exists>s. script X cfg d = Inr s"
proof -
  from assms(1) obtain m where m: "import_chain (algo cfg) = Some m"
    using import_chain_None_iff [of "algo cfg"] by auto
  obtain ag where ag: "create_agent X (Some m) cfg = Inr ag"
    using create_agent_bound [of X m cfg] by blast
  show ?thesis
    using episode_loop_total [OF assms(2,3), of X "[1 .. training_eps cfg]"
        "initial_locals X cfg d ag"]
    by (simp add: script_def main_def m ag)
qed

text \<open>
  C2. Let \<^verbatim>\<open>training_eps\<close> be \<open>N \<ge> 0\<close> and \<^verbatim>\<open>eval_per_train\<close> be \<open>C \<ge> 1\<close>. For a known
  algorithm and \<^verbatim>\<open>evaluation_eps \<noteq> 0\<close> the script runs to its end, whatever the agent
  returns. Every run that reaches its end has made \<open>N\<close> training episodes and exactly
  \<open>N div C\<close> evaluation blocks, the \<open>j\<close>-th of them right after training episode \<open>j * C\<close>,
  each with \<^verbatim>\<open>evaluation_eps\<close> evaluation episodes.
\<close>

theorem evaluation_block_count:
  assumes "0 \<le> training_eps cfg" and "1 \<le> eval_per_train cfg"
  shows "(algo cfg \<in> set algorithms \<and> evaluation_eps cfg \<noteq> 0 \<longrightarrow>
            (\<exists>s. script X cfg d = Inr s))
    \<and> (\<forall>s. script X cfg d = Inr s \<longrightarrow>
          block_positions 0 (trace s) =
            map (\<lambda>j. nat (j * eval_per_train cfg))
              [1 .. training_eps cfg div eval_per_train cfg]
          \<and> length (block_positions 0 (trace s)) =
              nat (training_eps cfg div eval_per_train cfg)
          \<and> length (train_results (trace s)) = nat (training_eps cfg)
          \<and> length (eval_results (trace s)) =
              nat (training_eps cfg div eval_per_train cfg) * nat (evaluation_eps cfg))"
proof (intro conjI allI impI)
  assume "algo cfg \<in> set algorithms \<and> evaluation_eps cfg \<noteq> 0"
  then show "\<exists>s. script X cfg d = Inr s"
    using assms(2) script_total [of cfg X d] by simp
next
  fix s assume "script X cfg d = Inr s"
  then obtain ag where
    run: "episode_loop X cfg [1 .. training_eps cfg] (initial_locals X cfg d ag) = Inr s"
    by (rule script_Inr)
  show pos: "block_positions 0 (trace s) =
      map (\<lambda>j. nat (j * eval_per_train cfg)) [1 .. training_eps cfg div eval_per_train cfg]"
    by (rule block_invariant [OF run assms])
  show "length (block_positions 0 (trace s)) = nat (training_eps cfg div eval_per_train cfg)"
    unfolding pos by simp
  show "length (train_results (trace s)) = nat (training_eps cfg)"
    using train_invariant [OF run assms(1)] by simp
  show "length (eval_results (trace s)) =
      nat (training_eps cfg div eval_per_train cfg) * nat (evaluation_eps cfg)"
    by (rule eval_count_invariant [OF run assms])
qed

theorem evaluation_block_count_witness:
  "0 \<le> training_eps (default_config\<lparr>training_eps := 400\<rparr>)
   \<and> 1 \<le> eval_per_train (default_config\<lparr>training_eps := 400\<rparr>)
   \<and> (\<exists>s. script (replay []) (default_config\<lparr>training_eps := 400\<rparr>) False = Inr s
         \<and> block_positions 0 (trace s) = [200, 400]
         \<and> length (train_results (trace s)) = 400
         \<and> length (eval_results (trace s)) = 400)"
proof -
  let ?cfg = "default_config\<lparr>training_eps := 400\<rparr>"
  have h: "0 \<le> training_eps ?cfg" "1 \<le> eval_per_train ?cfg"
    by (simp_all add: default_config_def)
  note inst = evaluation_block_count [OF h, of "replay []" False]
  have "algo ?cfg \<in> set algorithms \<and> evaluation_eps ?cfg \<noteq> 0"
    by (simp add: default_config_def algorithms_def)
  with inst obtain s where s: "script (replay []) ?cfg False = Inr s"
    by blast
  have "[1 .. 400 div 200] = [1, 2::int]"
    by (simp add: upto.simps)
  with inst s have "block_positions 0 (trace s) = [200, 400]"
    "length (train_results (trace s)) = 400" "length (eval_results (trace s)) = 400"
    by (simp_all add: default_config_def)
  with h s show ?thesis
    by blast
qed

subsection \<open>The training collision rate\<close>







subsection \<open>Independence of the clock\<close>

lemma average_return_clock:
  "average_return (X\<lparr>time_time := t, timestamp := ts\<rparr>) x n = average_return X x n"
  by (simp add: average_return_def)

lemma erase_time_eqD:
  assumes "erase_time s' = erase_time s"
  shows "agent s' = agent s" "eval_mode s' = eval_mode s"
    "train_num_steps s' = train_num_steps s" "train_sum_returns s' = train_sum_returns s"
    "train_num_episodes s' = train_num_episodes s"
    "train_num_collision s' = train_num_collision s"
    "train_average_return s' = train_average_return s"
    "eval_sum_returns s' = eval_sum_returns s" "eval_num_episodes s' = eval_num_episodes s"
    "eval_num_collision s' = eval_num_collision s"
    "eval_average_return s' = eval_average_return s"
    "save_dir_exists s' = save_dir_exists s"
    "filter timeless (trace s') = filter timeless (trace s)"
  using assms by (cases s; cases s'; simp add: erase_time_def)+

lemma erase_time_eqI:
  fixes s s' :: "'a locals"
  assumes "agent s' = agent s" "eval_mode s' = eval_mode s"
    "train_num_steps s' = train_num_steps s" "train_sum_returns s' = train_sum_returns s"
    "train_num_episodes s' = train_num_episodes s"
    "train_num_collision s' = train_num_collision s"
    "train_average_return s' = train_average_return s"
    "eval_sum_returns s' = eval_sum_returns s" "eval_num_episodes s' = eval_num_episodes s"
    "eval_num_collision s' = eval_num_collision s"
    "eval_average_return s' = eval_average_return s"
    "save_dir_exists s' = save_dir_exists s"
    "filter timeless (trace s') = filter timeless (trace s)"
  shows "erase_time s' = erase_time s"
  using assms by (cases s; cases s'; simp add: erase_time_def)

lemma erase_time_append:
  assumes "erase_time s' = erase_time s" and "filter timeless l' = filter timeless l"
  shows "erase_time (s'\<lparr>trace := trace s' @ l'\<rparr>) = erase_time (s\<lparr>trace := trace s @ l\<rparr>)"
  using assms by (cases s; cases s'; simp add: erase_time_def)

lemma train_episode_trace:
  "trace (train_episode X cfg e s) =
     trace s @ [Run False (max_step cfg) (fst (agent_run X (agent s) False (max_step cfg)))]
       @ (if tensorboard cfg
          then [Scalar ''Train/AverageReturns'' (train_average_return (train_episode X cfg e s)) e,
                Scalar ''Train/EpisodeReturns''
                  (episode_return (fst (agent_run X (agent s) False (max_step cfg)))) e]
          else [])
       @ (if tensorboard cfg \<and> (algo cfg = ''asac'' \<or> algo cfg = ''atac'')
          then [Scalar ''Train/Alpha''
                  (agent_alpha X (snd (agent_run X (agent s) False (max_step cfg)))) e]
          else [])"
  by (simp add: train_episode_def step_defs split: prod.split)

lemma timeless_simps:
  "timeless (Run m k r)" "timeless (Scalar tag v n)" "timeless (Save p)" "timeless (Mkdir p)"
  "\<not> timeless (WriterCreated p)" "timeless (Print l pv) \<longleftrightarrow> l \<noteq> ''Time:''"
  "timeless EnvCreated" "timeless (Seeded n)"
  by (simp_all add: timeless_def)

lemma train_episode_erase:
  assumes "erase_time s' = erase_time s"
  shows "erase_time (train_episode (X\<lparr>time_time := t, timestamp := ts\<rparr>) cfg e s') =
     erase_time (train_episode X cfg e s)"
proof -
  note eq = erase_time_eqD [OF assms]
  have avg: "train_average_return (train_episode (X\<lparr>time_time := t, timestamp := ts\<rparr>) cfg e s') =
      train_average_return (train_episode X cfg e s)"
    by (simp add: train_episode_aggregate eq average_return_clock)
  show ?thesis
    by (rule erase_time_eqI)
      (simp_all add: train_episode_fields train_episode_aggregate eq train_episode_trace
        timeless_simps average_return_clock)
qed

lemma eval_episode_erase:
  assumes "erase_time s' = erase_time s"
  shows "erase_time (eval_episode (X\<lparr>time_time := t, timestamp := ts\<rparr>) cfg e i s') =
     erase_time (eval_episode X cfg e i s)"
  using assms
  by (cases s; cases s')
    (simp add: erase_time_def eval_episode_def step_defs timeless_def split: prod.split)

lemma eval_loop_erase:
  assumes "erase_time s' = erase_time s"
  shows "erase_time (eval_loop (X\<lparr>time_time := t, timestamp := ts\<rparr>) cfg e js s') =
     erase_time (eval_loop X cfg e js s)"
  using assms
  by (induction js arbitrary: s s') (simp_all add: eval_episode_erase)

lemma begin_eval_erase:
  assumes "erase_time s' = erase_time s"
  shows "observe (begin_eval cfg e s') = observe (begin_eval cfg e s)"
  using assms
  by (cases s; cases s')
    (simp add: erase_time_def observe_def begin_eval_def py_truediv_def emit_def timeless_def)

lemma log_eval_erase:
  assumes "erase_time s' = erase_time s"
  shows "observe (log_eval (X\<lparr>time_time := t, timestamp := ts\<rparr>) cfg e s') =
     observe (log_eval X cfg e s)"
  using assms
  by (cases s; cases s')
    (simp add: erase_time_def observe_def log_eval_def py_truediv_def emit_def Let_def
      timeless_def average_return_clock)

lemma print_summary_eq:
  "print_summary X cfg e s =
     (if evaluation_eps cfg = 0
      then Inl (ZeroDivisionError, trace s @ take 6 (summary_lines X cfg e s))
      else Inr (s\<lparr>trace := trace s @ summary_lines X cfg e s\<rparr>))"
proof (cases "print_summary X cfg e s")
  case (Inl p)
  then show ?thesis
    by (cases p) (simp add: print_summary_Inl_iff)
next
  case (Inr s3)
  then show ?thesis
    by (simp add: print_summary_Inr_iff)
qed

lemma summary_lines_erase:
  assumes "erase_time s' = erase_time s"
  shows "filter timeless (summary_lines (X\<lparr>time_time := t, timestamp := ts\<rparr>) cfg e s') =
      filter timeless (summary_lines X cfg e s)"
    and "filter timeless (take 6 (summary_lines (X\<lparr>time_time := t, timestamp := ts\<rparr>) cfg e s')) =
      filter timeless (take 6 (summary_lines X cfg e s))"
  by (simp_all add: summary_lines_def timeless_simps rule_line_def erase_time_eqD [OF assms])

lemma print_summary_erase:
  assumes "erase_time s' = erase_time s"
  shows "observe (print_summary (X\<lparr>time_time := t, timestamp := ts\<rparr>) cfg e s') =
     observe (print_summary X cfg e s)"
  unfolding print_summary_eq observe_def
  using erase_time_append [OF assms summary_lines_erase(1) [OF assms]]
    summary_lines_erase(2) [OF assms] erase_time_eqD(13) [OF assms]
  by simp

lemma save_model_erase:
  assumes "erase_time s' = erase_time s"
  shows "erase_time (save_model (X\<lparr>time_time := t, timestamp := ts\<rparr>) cfg s') =
     erase_time (save_model X cfg s)"
  using assms
  by (cases s; cases s')
    (simp add: erase_time_def save_model_def ckpt_path_def emit_def Let_def timeless_def)

text \<open>Sequencing two steps keeps what is observed.\<close>

lemma observe_bind:
  assumes "observe a' = observe a"
    and "\<And>s s'. erase_time s' = erase_time s \<Longrightarrow> observe (f' s') = observe (f s)"
  shows "observe (case a' of Inl err \<Rightarrow> Inl err | Inr s \<Rightarrow> f' s) =
     observe (case a of Inl err \<Rightarrow> Inl err | Inr s \<Rightarrow> f s)"
  using assms
  by (cases a; cases a') (auto simp: observe_def)

lemma observe_Inr: "erase_time s' = erase_time s \<Longrightarrow> observe (Inr s') = observe (Inr s)"
  by (simp add: observe_def)

lemma eval_block_erase:
  assumes "erase_time s' = erase_time s"
  shows "observe (eval_block (X\<lparr>time_time := t, timestamp := ts\<rparr>) cfg e s') =
     observe (eval_block X cfg e s)"
  unfolding eval_block_def
  by (intro observe_bind begin_eval_erase assms log_eval_erase eval_loop_erase
      print_summary_erase observe_Inr save_model_erase)

lemma loop_body_erase:
  assumes "erase_time s' = erase_time s"
  shows "observe (loop_body (X\<lparr>time_time := t, timestamp := ts\<rparr>) cfg e s') =
     observe (loop_body X cfg e s)"
proof -
  note step = train_episode_erase [OF assms, where X = X and t = t and ts = ts and cfg = cfg and e = e]
  show ?thesis
  proof (cases "eval_due cfg e")
    case (Inl err)
    then show ?thesis
      using erase_time_eqD(13) [OF step] by (simp add: loop_body_def Let_def observe_def)
  next
    case (Inr b)
    then show ?thesis
      using eval_block_erase [OF step] step
      by (cases b) (simp_all add: loop_body_def Let_def observe_def)
  qed
qed

lemma episode_loop_erase:
  assumes "erase_time s' = erase_time s"
  shows "observe (episode_loop (X\<lparr>time_time := t, timestamp := ts\<rparr>) cfg es s') =
     observe (episode_loop X cfg es s)"
  using assms
proof (induction es arbitrary: s s')
  case Nil
  then show ?case by (simp add: observe_def)
next
  case (Cons e es)
  show ?case
    unfolding episode_loop.simps
    by (intro observe_bind loop_body_erase Cons.prems Cons.IH)
qed

lemma initial_locals_erase:
  "erase_time (initial_locals (X\<lparr>time_time := t, timestamp := ts\<rparr>) cfg d ag) =
     erase_time (initial_locals X cfg d ag)"
  by (simp add: initial_locals_def erase_time_def timeless_simps)

lemma create_agent_clock:
  "create_agent (X\<lparr>time_time := t, timestamp := ts\<rparr>) Agent cfg = create_agent X Agent cfg"
  by (cases Agent) (simp_all add: create_agent_def call_Agent_def)

lemma script_erase:
  "observe (script (X\<lparr>time_time := t, timestamp := ts\<rparr>) cfg d) = observe (script X cfg d)"
proof (cases "create_agent X (import_chain (algo cfg)) cfg")
  case (Inl err)
  then show ?thesis
    by (simp add: script_def main_def create_agent_clock)
next
  case (Inr ag)
  then show ?thesis
    using episode_loop_erase [OF initial_locals_erase,
        where X = X and t = t and ts = ts and cfg = cfg and es = "[1 .. training_eps cfg]"]
    by (simp add: script_def main_def create_agent_clock)
qed

lemma timeless_projections:
  "run_calls (filter timeless tr) = run_calls tr"
  "scalars tag (filter timeless tr) = scalars tag tr"
  "saves (filter timeless tr) = saves tr"
proof (induction tr)
  case Nil
  show "run_calls (filter timeless []) = run_calls []"
    "scalars tag (filter timeless []) = scalars tag []"
    "saves (filter timeless []) = saves []"
    by simp_all
next
  case (Cons ev tr)
  show "run_calls (filter timeless (ev # tr)) = run_calls (ev # tr)"
    using Cons(1) by (cases ev) (simp_all add: timeless_simps)
  show "scalars tag (filter timeless (ev # tr)) = scalars tag (ev # tr)"
    using Cons(2) by (cases ev) (simp_all add: timeless_simps)
  show "saves (filter timeless (ev # tr)) = saves (ev # tr)"
    using Cons(3) by (cases ev) (simp_all add: timeless_simps)
qed

lemma script_start_time:
  assumes "script X cfg d = Inr s"
  shows "start_time s = time_time X 0"
proof -
  from assms obtain ag where
    run: "episode_loop X cfg [1 .. training_eps cfg] (initial_locals X cfg d ag) = Inr s"
    by (rule script_Inr)
  show ?thesis
  proof (cases "0 \<le> training_eps cfg")
    case True
    show ?thesis
    proof (rule episode_loop_induct [OF run True, where P = "\<lambda>k s. start_time s = time_time X 0"])
      show "start_time (initial_locals X cfg d ag) = time_time X 0"
        by (simp add: initial_locals_fields)
    next
      fix e t t'
      assume "start_time t = time_time X 0" and "loop_body X cfg e t = Inr t'"
      then show "start_time t' = time_time X 0"
        using loop_body_train(6) [of X cfg e t t'] by simp
    qed
  next
    case False
    with run have "s = initial_locals X cfg d ag"
      by simp
    then show ?thesis
      by (simp add: initial_locals_fields)
  qed
qed

text \<open>
  C9. Fix the configuration (with its seed) and the collaborators: the constructor and
  \<^verbatim>\<open>run\<close> of the agent are functions, as for a deterministic stub. Two runs then differ
  only in what the clock reads, and whatever it reads, the runs agree on everything
  observed apart from it: they end the same way, with the same scalars under every tag, the
  same calls of the agent, the same checkpoints and the same aggregates in the locals.
\<close>

theorem same_seed_same_metrics:
  "observe (script (X\<lparr>time_time := t, timestamp := ts\<rparr>) cfg d) = observe (script X cfg d)
   \<and> (\<forall>s. script X cfg d = Inr s \<longrightarrow>
        (\<exists>s'. script (X\<lparr>time_time := t, timestamp := ts\<rparr>) cfg d = Inr s'
           \<and> train_average_return s' = train_average_return s
           \<and> eval_average_return s' = eval_average_return s
           \<and> train_num_steps s' = train_num_steps s
           \<and> train_num_episodes s' = train_num_episodes s
           \<and> train_sum_returns s' = train_sum_returns s
           \<and> train_num_collision s' = train_num_collision s
           \<and> eval_num_episodes s' = eval_num_episodes s
           \<and> eval_sum_returns s' = eval_sum_returns s
           \<and> eval_num_collision s' = eval_num_collision s
           \<and> (\<forall>tag. scalars tag (trace s') = scalars tag (trace s))
           \<and> run_calls (trace s') = run_calls (trace s)
           \<and> saves (trace s') = saves (trace s)))"
proof (intro conjI allI impI)
  show obs: "observe (script (X\<lparr>time_time := t, timestamp := ts\<rparr>) cfg d) =
      observe (script X cfg d)"
    by (rule script_erase)
  fix s assume s: "script X cfg d = Inr s"
  with obs obtain s' where s': "script (X\<lparr>time_time := t, timestamp := ts\<rparr>) cfg d = Inr s'"
    and eq: "erase_time s' = erase_time s"
    by (cases "script (X\<lparr>time_time := t, timestamp := ts\<rparr>) cfg d")
      (auto simp: observe_def)
  note fields = erase_time_eqD [OF eq]
  have "run_calls (trace s') = run_calls (trace s)" "saves (trace s') = saves (trace s)"
    "scalars tag (trace s') = scalars tag (trace s)" for tag
    using timeless_projections [where tr = "trace s'"] timeless_projections [where tr = "trace s"]
      fields(13)
    by simp_all
  with s' fields
  show "\<exists>s'. script (X\<lparr>time_time := t, timestamp := ts\<rparr>) cfg d = Inr s'
           \<and> train_average_return s' = train_average_return s
           \<and> eval_average_return s' = eval_average_return s
           \<and> train_num_steps s' = train_num_steps s
           \<and> train_num_episodes s' = train_num_episodes s
           \<and> train_sum_returns s' = train_sum_returns s
           \<and> train_num_collision s' = train_num_collision s
           \<and> eval_num_episodes s' = eval_num_episodes s
           \<and> eval_sum_returns s' = eval_sum_returns s
           \<and> eval_num_collision s' = eval_num_collision s
           \<and> (\<forall>tag. scalars tag (trace s') = scalars tag (trace s))
           \<and> run_calls (trace s') = run_calls (trace s)
           \<and> saves (trace s') = saves (trace s)"
    by blast
qed

theorem same_seed_same_metrics_witness:
  "\<exists>s s'. script (replay [(1, 0, False), (2, 15, False)]) one_episode_config False = Inr s
     \<and> script ((replay [(1, 0, False), (2, 15, False)])\<lparr>time_time := \<lambda>e. 7, timestamp := ''later''\<rparr>)
          one_episode_config False = Inr s'
     \<and> start_time s = 0 \<and> start_time s' = 7
     \<and> train_average_return s' = train_average_return s
     \<and> eval_average_return s' = eval_average_return s
     \<and> train_num_steps s' = train_num_steps s
     \<and> train_num_episodes s' = train_num_episodes s
     \<and> (\<forall>tag. scalars tag (trace s') = scalars tag (trace s))"
proof -
  let ?X = "replay [(1, 0, False), (2, 15, False)]"
  let ?X' = "?X\<lparr>time_time := \<lambda>e. 7, timestamp := ''later''\<rparr>"
  obtain s where s: "script ?X one_episode_config False = Inr s"
    using script_total [of one_episode_config ?X False]
    by (auto simp: one_episode_config_def default_config_def algorithms_def)
  from same_seed_same_metrics [where X = ?X and t = "\<lambda>e. 7" and ts = "''later''"
      and cfg = one_episode_config and d = False] s
  obtain s' where s': "script ?X' one_episode_config False = Inr s'"
    and eq: "train_average_return s' = train_average_return s"
      "eval_average_return s' = eval_average_return s"
      "train_num_steps s' = train_num_steps s"
      "train_num_episodes s' = train_num_episodes s"
      "\<forall>tag. scalars tag (trace s') = scalars tag (trace s)"
    by blast
  have "start_time s = 0" "start_time s' = 7"
    using script_start_time [OF s] script_start_time [OF s'] by (simp_all add: replay_def)
  with s s' eq show ?thesis
    by blast
qed

end
